theory Spec2Isabelle
  imports Complex_Main "HOL-Library.Sublist" "HOL-Library.AList"
begin

section \<open>Python values and exceptions\<close>

text \<open>
  The three Lambda handlers work on JSON-like Python values: the event, the decoded token
  payload, the parsed request body and the DynamoDB items are dictionaries with string keys.
  A dictionary is an association list in insertion order, as Python keeps it.
\<close>

datatype py_value =
    PyNone
  | PyBool bool
  | PyInt int
  | PyFloat real
  | PyStr string
  | PyList "py_value list"
  | PyDict "(string \<times> py_value) list"

type_synonym py_dict = "(string \<times> py_value) list"

text \<open>
  Exception classes the handlers raise, receive or name in an \<open>except\<close> clause.
  \<open>InvalidTokenError\<close> stands for \<open>jwt.InvalidTokenError\<close> and its subclasses other than
  \<open>jwt.ExpiredSignatureError\<close>; \<open>Exception\<close> is the base class itself.
\<close>

datatype exc_class =
    ValueError | AttributeError | TypeError | KeyError | JSONDecodeError
  | ClientError | ExpiredSignatureError | InvalidTokenError | Exception

datatype py_exc = PyExc (exc_class_of: exc_class) (exc_message: string)

text \<open>\<open>d.get(k, default)\<close> on a dictionary.\<close>

definition dict_get :: "('k \<times> 'v) list \<Rightarrow> 'k \<Rightarrow> 'v \<Rightarrow> 'v" where
  "dict_get d k dflt = (case map_of d k of None \<Rightarrow> dflt | Some v \<Rightarrow> v)"

text \<open>\<open>d[k]\<close> on a dictionary: a missing key raises \<open>KeyError\<close>.\<close>

definition dict_subscript :: "py_dict \<Rightarrow> string \<Rightarrow> py_exc + py_value" where
  "dict_subscript d k = (case map_of d k of None \<Rightarrow> Inl (PyExc KeyError k) | Some v \<Rightarrow> Inr v)"

text \<open>
  \<open>v.get(k, default)\<close> on any value: only a dictionary has the method; every other value
  raises \<open>AttributeError\<close>.
\<close>

definition py_get :: "py_value \<Rightarrow> string \<Rightarrow> py_value \<Rightarrow> py_exc + py_value" where
  "py_get v k dflt =
     (case v of
        PyDict d \<Rightarrow> Inr (dict_get d k dflt)
      | _ \<Rightarrow> Inl (PyExc AttributeError ''object has no attribute get''))"

text \<open>
  \<open>d[k] = v\<close> on a dictionary: an existing key keeps its place in the insertion order, a new
  key goes to the end.
\<close>

definition dict_setitem :: "('k \<times> 'v) list \<Rightarrow> 'k \<Rightarrow> 'v \<Rightarrow> ('k \<times> 'v) list" where
  "dict_setitem d k v = AList.update k v d"

text \<open>
  \<open>str(v)\<close>: a string is returned as it is; for every other value \<open>str\<close> is \<open>repr\<close>,
  which is taken as a parameter.
\<close>

definition py_str :: "(py_value \<Rightarrow> string) \<Rightarrow> py_value \<Rightarrow> string" where
  "py_str repr v = (case v of PyStr s \<Rightarrow> s | _ \<Rightarrow> repr v)"


text \<open>
  A \<open>datetime\<close> is its whole seconds since the epoch in UTC and its microseconds.
  \<open>int(d.timestamp())\<close> is the whole seconds: the handlers run with the process time zone
  set to UTC and read the clock after 1970. Subtracting \<open>timedelta(days=n)\<close> moves the
  seconds by \<open>n * 86400\<close>.
\<close>

record datetime =
  epoch_seconds :: int
  microsecond :: nat

definition int_timestamp :: "datetime \<Rightarrow> int" where
  "int_timestamp d = epoch_seconds d"

definition minus_days :: "datetime \<Rightarrow> int \<Rightarrow> datetime" where
  "minus_days d n = d\<lparr>epoch_seconds := epoch_seconds d - n * 86400\<rparr>"

text \<open>
  The library functions the handlers call and the model does not compute: \<open>repr\<close>,
  \<open>json.loads\<close> on a string (the parsed value, or the exception it raises),
  \<open>json.dumps\<close> with its \<open>indent\<close> argument, \<open>datetime.isoformat\<close> and
  \<open>datetime.strftime\<close>.
\<close>

record py_runtime =
  py_repr :: "py_value \<Rightarrow> string"
  json_loads :: "string \<Rightarrow> py_exc + py_value"
  json_dumps :: "nat option \<Rightarrow> py_value \<Rightarrow> string"
  isoformat :: "datetime \<Rightarrow> string"
  strftime :: "datetime \<Rightarrow> string \<Rightarrow> string"


section \<open>Token verifier: \<open>lambda/authorizer.py\<close>\<close>

text \<open>
  The environment of the authorizer: the process environment variable
  \<open>JWT_SECRET_PARAM\<close>, the SSM client (\<open>ssm.get_parameter\<close>, reduced to the
  \<open>['Parameter']['Value']\<close> of its response or the exception it raises), and what the
  PyJWT call \<open>jwt.decode\<close> rests on:
  \<^item> \<open>jwt_verify_signature\<close>, the parsing of the token and the check of its signature
    with the key under the allowed algorithms, which returns the payload dictionary or
    raises;
  \<^item> \<open>jwt_now\<close>, the clock reading of the verification, in seconds since the epoch;
  \<^item> \<open>py_int\<close>, the builtin \<open>int\<close> on a claim value;
  \<^item> \<open>jwt_checks_before_exp\<close> and \<open>jwt_checks_after_exp\<close>, the checks of the other claims
    (issued-at and not-before before the expiry, audience and issuer after it), which
    take the options and the payload and return the exception they raise, if any.

  The module-level cache \<open>_jwt_secret_cache\<close> is threaded through as an explicit state.
\<close>

record auth_env = py_runtime +
  JWT_SECRET_PARAM :: "string option"
  ssm_get_parameter :: "string \<Rightarrow> py_exc + string"
  jwt_verify_signature :: "string \<Rightarrow> string \<Rightarrow> string list \<Rightarrow> py_exc + py_dict"
  jwt_now :: real
  py_int :: "py_value \<Rightarrow> py_exc + int"
  jwt_checks_before_exp :: "(string \<times> bool) list \<Rightarrow> py_dict \<Rightarrow> py_exc option"
  jwt_checks_after_exp :: "(string \<times> bool) list \<Rightarrow> py_dict \<Rightarrow> py_exc option"

text \<open>
  Modelled from the spec: the library function \<open>jwt.decode\<close> of PyJWT is not under
  \<open>src/\<close>. The spec says of it: "Verification checks signature validity, expiry (\<open>exp\<close>
  must be in the future), and issued-at plausibility". An option of \<open>jwt.decode\<close> that
  the caller does not set is on. With \<open>verify_exp\<close> on, a payload that carries an
  \<open>exp\<close> claim is rejected with \<open>ExpiredSignatureError\<close> unless the claim, read as an
  integer, is in the future of the clock; an \<open>exp\<close> that \<open>int\<close> refuses with
  \<open>ValueError\<close> is rejected as an invalid token. A payload without \<open>exp\<close> passes: the
  handler requires no claim.
\<close>

definition jwt_option :: "(string \<times> bool) list \<Rightarrow> string \<Rightarrow> bool" where
  "jwt_option options name = dict_get options name True"

definition validate_exp :: "auth_env \<Rightarrow> py_dict \<Rightarrow> py_exc option" where
  "validate_exp env payload =
     (case map_of payload ''exp'' of
        None \<Rightarrow> None
      | Some v \<Rightarrow>
          (case py_int env v of
             Inl e \<Rightarrow>
               if exc_class_of e = ValueError then
                 Some (PyExc InvalidTokenError ''Expiration Time claim (exp) must be an integer.'')
               else Some e
           | Inr expiry \<Rightarrow>
               if real_of_int expiry \<le> jwt_now env then
                 Some (PyExc ExpiredSignatureError ''Signature has expired'')
               else None))"

definition jwt_decode ::
  "auth_env \<Rightarrow> string \<Rightarrow> string \<Rightarrow> string list \<Rightarrow> (string \<times> bool) list \<Rightarrow> py_exc + py_dict" where
  "jwt_decode env token key algorithms options =
     (case jwt_verify_signature env token key algorithms of
        Inl e \<Rightarrow> Inl e
      | Inr payload \<Rightarrow>
          (case jwt_checks_before_exp env options payload of
             Some e \<Rightarrow> Inl e
           | None \<Rightarrow>
               (case (if jwt_option options ''verify_exp'' then validate_exp env payload
                      else None) of
                  Some e \<Rightarrow> Inl e
                | None \<Rightarrow>
                    (case jwt_checks_after_exp env options payload of
                       Some e \<Rightarrow> Inl e
                     | None \<Rightarrow> Inr payload))))"

definition get_jwt_secret :: "auth_env \<Rightarrow> string option \<Rightarrow> (py_exc + string) \<times> string option" where
  "get_jwt_secret env cache =
     (case cache of
        Some secret \<Rightarrow> (Inr secret, cache)
      | None \<Rightarrow>
          (case JWT_SECRET_PARAM env of
             None \<Rightarrow> (Inl (PyExc KeyError ''JWT_SECRET_PARAM''), cache)
           | Some param_name \<Rightarrow>
               (case ssm_get_parameter env param_name of
                  Inl e \<Rightarrow> (Inl e, cache)
                | Inr v \<Rightarrow> (Inr v, Some v))))"

definition generate_policy ::
  "(py_value \<Rightarrow> string) \<Rightarrow> py_value \<Rightarrow> string \<Rightarrow> py_value \<Rightarrow> py_dict option \<Rightarrow> py_dict" where
  "generate_policy repr principal_id effect resource context_data =
     (let policy =
        [(''principalId'', principal_id),
         (''policyDocument'', PyDict
            [(''Version'', PyStr ''2012-10-17''),
             (''Statement'', PyList
                [PyDict [(''Action'', PyStr ''execute-api:Invoke''),
                         (''Effect'', PyStr effect),
                         (''Resource'', resource)]])])]
      in (case context_data of
            None \<Rightarrow> policy
          | Some cd \<Rightarrow>
              if cd \<noteq> [] then
                policy @
                [(''context'', PyDict
                    [(''userId'', PyStr (py_str repr (dict_get cd ''sub'' (PyStr '''')))),
                     (''email'', PyStr (py_str repr (dict_get cd ''email'' (PyStr '''')))),
                     (''scope'', PyStr (py_str repr (dict_get cd ''scope'' (PyStr ''''))))])]
              else policy))"

text \<open>The body of the \<open>try\<close> block of \<open>handler\<close> (lines 46 to 74).\<close>

definition authorizer_try ::
  "auth_env \<Rightarrow> string option \<Rightarrow> py_dict \<Rightarrow> py_value \<Rightarrow> (py_exc + py_dict) \<times> string option" where
  "authorizer_try env cache event token =
     (case token of
        PyStr s \<Rightarrow>
          if \<not> prefix ''Bearer '' s then
            (Inl (PyExc ValueError ''Invalid token format''), cache)
          else
            (let token' = drop 7 s in
             case get_jwt_secret env cache of
               (Inl e, cache') \<Rightarrow> (Inl e, cache')
             | (Inr secret_key, cache') \<Rightarrow>
                 (case jwt_decode env token' secret_key [''HS256'']
                         [(''verify_exp'', True), (''verify_iat'', True)] of
                    Inl e \<Rightarrow> (Inl e, cache')
                  | Inr payload \<Rightarrow>
                      (let user_id = dict_get payload ''sub'' (PyStr ''unknown'') in
                       case dict_subscript event ''methodArn'' of
                         Inl e \<Rightarrow> (Inl e, cache')
                       | Inr arn \<Rightarrow>
                           (Inr (generate_policy (py_repr env) user_id ''Allow'' arn (Some payload)),
                            cache'))))
      | _ \<Rightarrow> (Inl (PyExc AttributeError ''object has no attribute startswith''), cache))"

text \<open>
  \<open>handler(event, context)\<close> of the authorizer. The three \<open>except\<close> clauses are tried in the
  source's order; each of them raises \<open>Exception('Unauthorized')\<close>. Log lines are left out.
\<close>

definition authorizer_handler ::
  "auth_env \<Rightarrow> string option \<Rightarrow> py_dict \<Rightarrow> (py_exc + py_dict) \<times> string option" where
  "authorizer_handler env cache event =
     (let token = dict_get event ''authorizationToken'' (PyStr '''') in
      case authorizer_try env cache event token of
        (Inr policy, cache') \<Rightarrow> (Inr policy, cache')
      | (Inl e, cache') \<Rightarrow>
          if exc_class_of e = ExpiredSignatureError then
            (Inl (PyExc Exception ''Unauthorized''), cache')
          else if exc_class_of e = InvalidTokenError then
            (Inl (PyExc Exception ''Unauthorized''), cache')
          else
            (Inl (PyExc Exception ''Unauthorized''), cache'))"

section \<open>Ingest handler: \<open>lambda/ingest_handler.py\<close>\<close>

text \<open>
  The environment of one invocation: the identifier that \<open>str(uuid.uuid4())\<close> draws, the two
  readings of \<open>datetime.now(timezone.utc)\<close> (one for \<open>timestamp\<close>, one for
  \<open>createdAt\<close>), and the outcome of \<open>table.put_item(Item=item)\<close>: \<open>None\<close> when the write
  succeeds, the exception it raises otherwise.
\<close>

record ingest_env = py_runtime +
  uuid4 :: string
  now_for_timestamp :: datetime
  now_for_created_at :: datetime
  table_put_item :: "py_dict \<Rightarrow> py_exc option"

definition create_response :: "ingest_env \<Rightarrow> int \<Rightarrow> py_value \<Rightarrow> py_dict" where
  "create_response env status_code body =
     [(''statusCode'', PyInt status_code),
      (''headers'', PyDict
         [(''Content-Type'', PyStr ''application/json''),
          (''Access-Control-Allow-Origin'', PyStr ''*''),
          (''Access-Control-Allow-Headers'', PyStr ''Content-Type,Authorization,X-Api-Key''),
          (''Access-Control-Allow-Methods'', PyStr ''POST,OPTIONS'')]),
      (''body'', PyStr (json_dumps env None body))]"

text \<open>
  \<open>json.loads(v)\<close>: a string is parsed; any other value of the model raises
  \<open>TypeError\<close>.
\<close>

definition py_json_loads :: "ingest_env \<Rightarrow> py_value \<Rightarrow> py_exc + py_value" where
  "py_json_loads env v =
     (case v of
        PyStr s \<Rightarrow> json_loads env s
      | _ \<Rightarrow> Inl (PyExc TypeError ''the JSON object must be str, bytes or bytearray''))"

text \<open>
  \<open>k in v\<close> for a string \<open>k\<close>: a key of a dictionary, an element of a list, a substring
  of a string; the other values are not iterable.
\<close>

definition py_contains :: "py_value \<Rightarrow> string \<Rightarrow> py_exc + bool" where
  "py_contains v k =
     (case v of
        PyDict d \<Rightarrow> Inr (k \<in> set (map fst d))
      | PyList xs \<Rightarrow> Inr (PyStr k \<in> set xs)
      | PyStr s \<Rightarrow> Inr (sublist k s)
      | _ \<Rightarrow> Inl (PyExc TypeError ''argument is not iterable''))"

text \<open>
  The condition \<open>"userId" not in body or "data" not in body\<close>: the second test is
  evaluated only when the first is false.
\<close>

definition missing_required :: "py_value \<Rightarrow> py_exc + bool" where
  "missing_required body =
     (case py_contains body ''userId'' of
        Inl e \<Rightarrow> Inl e
      | Inr has_user \<Rightarrow>
          if \<not> has_user then Inr True
          else (case py_contains body ''data'' of
                  Inl e \<Rightarrow> Inl e
                | Inr has_data \<Rightarrow> Inr (\<not> has_data)))"

text \<open>
  The statements after the required fields are checked (lines 61 to 98). The second
  component is the list of items handed to \<open>table.put_item\<close>.
\<close>

definition ingest_store ::
  "ingest_env \<Rightarrow> py_value \<Rightarrow> py_value \<Rightarrow> py_value \<Rightarrow> (py_exc + py_dict) \<times> py_dict list" where
  "ingest_store env user_id_from_token user_email body =
     (case py_get body ''userId'' PyNone of
        Inl e \<Rightarrow> (Inl e, [])
      | Inr user_id \<Rightarrow>
     (case py_get body ''eventType'' (PyStr ''unknown'') of
        Inl e \<Rightarrow> (Inl e, [])
      | Inr event_type \<Rightarrow>
     (case py_get body ''data'' (PyDict []) of
        Inl e \<Rightarrow> (Inl e, [])
      | Inr data_payload \<Rightarrow>
          (let item_id = uuid4 env;
               timestamp = int_timestamp (now_for_timestamp env);
               item =
                 [(''id'', PyStr item_id),
                  (''timestamp'', PyInt timestamp),
                  (''userId'', user_id),
                  (''eventType'', event_type),
                  (''data'', data_payload),
                  (''createdAt'', PyStr (isoformat env (now_for_created_at env))),
                  (''authenticatedUser'', user_id_from_token),
                  (''userEmail'', user_email)]
           in case table_put_item env item of
                Some e \<Rightarrow>
                  if exc_class_of e = ClientError then
                    (Inr (create_response env 500
                            (PyDict [(''error'', PyStr ''Database error''),
                                     (''details'', PyStr (exc_message e))])), [item])
                  else (Inl e, [item])
              | None \<Rightarrow>
                  (Inr (create_response env 200
                          (PyDict [(''message'', PyStr ''Data ingested successfully''),
                                   (''id'', PyStr item_id),
                                   (''timestamp'', PyInt timestamp)])), [item])))))"

text \<open>The body of the outer \<open>try\<close> block of \<open>handler\<close> (lines 40 to 98).\<close>

definition ingest_try :: "ingest_env \<Rightarrow> py_dict \<Rightarrow> (py_exc + py_dict) \<times> py_dict list" where
  "ingest_try env event =
     (let request_context = dict_get event ''requestContext'' (PyDict []) in
      case py_get request_context ''authorizer'' (PyDict []) of
        Inl e \<Rightarrow> (Inl e, [])
      | Inr authorizer_context \<Rightarrow>
     (case py_get authorizer_context ''userId'' (PyStr ''unknown'') of
        Inl e \<Rightarrow> (Inl e, [])
      | Inr user_id_from_token \<Rightarrow>
     (case py_get authorizer_context ''email'' (PyStr []) of
        Inl e \<Rightarrow> (Inl e, [])
      | Inr user_email \<Rightarrow>
     (case py_json_loads env (dict_get event ''body'' (PyStr ''{}'')) of
        Inl e \<Rightarrow>
          if exc_class_of e = JSONDecodeError then
            (Inr (create_response env 400 (PyDict [(''error'', PyStr ''Invalid JSON format'')])), [])
          else (Inl e, [])
      | Inr body \<Rightarrow>
     (case missing_required body of
        Inl e \<Rightarrow> (Inl e, [])
      | Inr missing \<Rightarrow>
          if missing then
            (Inr (create_response env 400
                    (PyDict [(''error'', PyStr ''Missing required fields: userId, data'')])), [])
          else ingest_store env user_id_from_token user_email body)))))"

text \<open>
  \<open>handler(event, context)\<close> of the ingest function: whatever the \<open>try\<close> block raises
  becomes the 500 response.
\<close>

definition ingest_handler :: "ingest_env \<Rightarrow> py_dict \<Rightarrow> py_dict \<times> py_dict list" where
  "ingest_handler env event =
     (case ingest_try env event of
        (Inr response, puts) \<Rightarrow> (response, puts)
      | (Inl e, puts) \<Rightarrow>
          (create_response env 500 (PyDict [(''error'', PyStr ''Internal server error'')]), puts))"

section \<open>Aggregator: \<open>lambda/weekly_summary_handler.py\<close>\<close>

text \<open>
  An item as the scan returns it. The \<open>ProjectionExpression\<close> keeps three attributes:
  \<open>userId\<close>, \<open>eventType\<close> and \<open>timestamp\<close>; each may be absent. Subjects and event
  types are strings (the statistics are annotated \<open>Dict[str, int]\<close>), timestamps are whole
  seconds.
\<close>

record item =
  userId :: "string option"
  eventType :: "string option"
  timestamp :: "int option"

text \<open>
  The response of one \<open>table.scan\<close> call: the \<open>Items\<close> entry (which \<open>response.get\<close>
  defaults to the empty list) and the \<open>LastEvaluatedKey\<close> entry, present when the scan has
  more pages.
\<close>

record 'k scan_response =
  Items :: "item list option"
  LastEvaluatedKey :: "'k option"

type_synonym stats = "(string \<times> int) list"

fun process_items :: "item list \<Rightarrow> stats \<Rightarrow> stats \<Rightarrow> stats \<times> stats" where
  "process_items [] user_stats event_stats = (user_stats, event_stats)"
| "process_items (it # items) user_stats event_stats =
     (let user_id = userId it;
          event_type = (case eventType it of None \<Rightarrow> ''unknown'' | Some t \<Rightarrow> t);
          user_stats' =
            (case user_id of
               None \<Rightarrow> user_stats
             | Some u \<Rightarrow>
                 if u \<noteq> [] then dict_setitem user_stats u (dict_get user_stats u 0 + 1)
                 else user_stats);
          event_stats' = dict_setitem event_stats event_type (dict_get event_stats event_type 0 + 1)
      in process_items items user_stats' event_stats')"

text \<open>
  The three statements that follow each \<open>table.scan\<close> call: read the items, process
  them, add their number to \<open>total_count\<close>.
\<close>

definition process_page :: "'k scan_response \<Rightarrow> int \<times> stats \<times> stats \<Rightarrow> int \<times> stats \<times> stats" where
  "process_page response acc =
     (case acc of (total_count, user_stats, event_stats) \<Rightarrow>
        (let items = (case Items response of None \<Rightarrow> [] | Some xs \<Rightarrow> xs);
             (user_stats', event_stats') = process_items items user_stats event_stats
         in (total_count + int (length items), user_stats', event_stats')))"

text \<open>
  The pagination loop \<open>while "LastEvaluatedKey" in response\<close>. Nothing in the handler
  bounds the number of pages, so the loop is a partial function: \<open>None\<close> is a run that
  never leaves the loop.
\<close>

partial_function (option) scan_pages ::
  "('k option \<Rightarrow> py_exc + 'k scan_response) \<Rightarrow> 'k scan_response \<Rightarrow> int \<times> stats \<times> stats
     \<Rightarrow> (py_exc + int \<times> stats \<times> stats) option" where
  "scan_pages scan response acc =
     (case LastEvaluatedKey response of
        None \<Rightarrow> Some (Inr acc)
      | Some k \<Rightarrow>
          (case scan (Some k) of
             Inl e \<Rightarrow> Some (Inl e)
           | Inr response' \<Rightarrow> scan_pages scan response' (process_page response' acc)))"

text \<open>
  \<open>scan_table\<close>. Its first argument is \<open>table.scan\<close> with the fixed projection and filter
  expression: it takes the two bounds of the filter and the \<open>ExclusiveStartKey\<close>
  (\<open>None\<close> on the initial scan).
\<close>

definition scan_table ::
  "(int \<Rightarrow> int \<Rightarrow> 'k option \<Rightarrow> py_exc + 'k scan_response) \<Rightarrow> int \<Rightarrow> int
     \<Rightarrow> (py_exc + int \<times> stats \<times> stats) option" where
  "scan_table table_scan start_timestamp end_timestamp =
     (case table_scan start_timestamp end_timestamp None of
        Inl e \<Rightarrow> Some (Inl e)
      | Inr response \<Rightarrow>
          scan_pages (table_scan start_timestamp end_timestamp) response
            (process_page response (0, [], [])))"

text \<open>
  \<open>sorted(xs, key=f, reverse=True)\<close>: Python's sort is stable, and with \<open>reverse=True\<close>
  elements with equal keys still keep their original order. That is the stable
  ascending sort on the negated key.
\<close>

definition sorted_reverse :: "('a \<Rightarrow> int) \<Rightarrow> 'a list \<Rightarrow> 'a list" where
  "sorted_reverse f xs = sort_key (\<lambda>x. - f x) xs"

text \<open>The slice \<open>xs[:limit]\<close>; a negative limit counts from the end.\<close>

definition slice_to :: "'a list \<Rightarrow> int \<Rightarrow> 'a list" where
  "slice_to xs limit =
     (if 0 \<le> limit then take (nat limit) xs else take (length xs - nat (- limit)) xs)"

definition get_top_items :: "stats \<Rightarrow> int \<Rightarrow> py_value list" where
  "get_top_items stats_dict limit =
     (let sorted_items = sorted_reverse snd stats_dict
      in map (\<lambda>(name, count). PyDict [(''name'', PyStr name), (''count'', PyInt count)])
           (slice_to sorted_items limit))"

text \<open>
  The environment of one run: the clock reading \<open>datetime.utcnow()\<close>, \<open>table.scan\<close>, the
  bucket name, and the outcome of \<open>s3.put_object\<close>: \<open>None\<close> when the object is stored,
  the exception it raises otherwise.
\<close>

record put_object_request =
  Bucket :: "string option"
  Key :: string
  Body :: string
  ContentType :: string
  ServerSideEncryption :: string
  Metadata :: "(string \<times> string) list"

record 'k summary_env = py_runtime +
  utcnow :: datetime
  table_scan :: "int \<Rightarrow> int \<Rightarrow> 'k option \<Rightarrow> py_exc + 'k scan_response"
  bucket_name :: "string option"
  s3_put_object :: "put_object_request \<Rightarrow> py_exc option"

text \<open>\<open>v[k]\<close> on any value of the model: only a dictionary can be subscripted by a string.\<close>

definition py_subscript :: "py_value \<Rightarrow> string \<Rightarrow> py_exc + py_value" where
  "py_subscript v k =
     (case v of
        PyDict d \<Rightarrow> dict_subscript d k
      | _ \<Rightarrow> Inl (PyExc TypeError ''object is not subscriptable''))"

text \<open>
  The arguments of the \<open>s3.put_object\<close> call in \<open>upload_summary_to_s3\<close>;
  \<open>total_items\<close> is the value of \<open>summary["statistics"]["total_items"]\<close>.
\<close>

definition put_object_args ::
  "'k summary_env \<Rightarrow> string \<Rightarrow> py_value \<Rightarrow> datetime \<Rightarrow> py_value \<Rightarrow> put_object_request" where
  "put_object_args env s3_key summary ts total_items =
     \<lparr>Bucket = bucket_name env,
      Key = s3_key,
      Body = json_dumps env (Some 2) summary,
      ContentType = ''application/json'',
      ServerSideEncryption = ''AES256'',
      Metadata =
        [(''generated-at'', isoformat env ts),
         (''total-items'', py_str (py_repr env) total_items)]\<rparr>"

text \<open>
  \<open>upload_summary_to_s3\<close>. The second component is the list of requests handed to
  \<open>s3.put_object\<close>.
\<close>

definition upload_summary_to_s3 ::
  "'k summary_env \<Rightarrow> py_value \<Rightarrow> datetime \<Rightarrow> (py_exc + string) \<times> put_object_request list" where
  "upload_summary_to_s3 env summary ts =
     (let date_str = strftime env ts ''%Y-%m-%d'';
          s3_key = ''summaries/weekly-summary-'' @ date_str @ ''.json''
      in case py_subscript summary ''statistics'' of
           Inl e \<Rightarrow> (Inl e, [])
         | Inr statistics \<Rightarrow>
             (case py_subscript statistics ''total_items'' of
                Inl e \<Rightarrow> (Inl e, [])
              | Inr total_items \<Rightarrow>
                  (let request = put_object_args env s3_key summary ts total_items
                   in case s3_put_object env request of
                        Some e \<Rightarrow> (Inl e, [request])
                      | None \<Rightarrow> (Inr s3_key, [request]))))"

text \<open>The summary document that \<open>handler\<close> assembles (lines 60 to 76).\<close>

definition make_summary ::
  "'k summary_env \<Rightarrow> datetime \<Rightarrow> datetime \<Rightarrow> int \<Rightarrow> stats \<Rightarrow> stats \<Rightarrow> py_value" where
  "make_summary env start_time end_time total_count user_stats event_stats =
     PyDict
       [(''generated_at'', PyStr (isoformat env end_time)),
        (''period'', PyDict
           [(''start'', PyStr (isoformat env start_time)),
            (''end'', PyStr (isoformat env end_time))]),
        (''statistics'', PyDict
           [(''total_items'', PyInt total_count),
            (''unique_users'', PyInt (int (length user_stats))),
            (''unique_event_types'', PyInt (int (length event_stats)))]),
        (''top_users'', PyList (get_top_items user_stats 10)),
        (''top_event_types'', PyList (get_top_items event_stats 10)),
        (''daily_breakdown'', PyDict [])]"

text \<open>
  The statements of \<open>handler\<close> that follow the scan (lines 59 to 97): assemble the
  summary, upload it, build the 200 document.
\<close>

definition report_and_upload ::
  "'k summary_env \<Rightarrow> datetime \<Rightarrow> datetime \<Rightarrow> int \<Rightarrow> stats \<Rightarrow> stats
     \<Rightarrow> (py_exc + py_dict) \<times> put_object_request list" where
  "report_and_upload env start_time end_time total_count user_stats event_stats =
     (let summary = make_summary env start_time end_time total_count user_stats event_stats
      in case upload_summary_to_s3 env summary end_time of
           (Inl e, puts) \<Rightarrow> (Inl e, puts)
         | (Inr s3_key, puts) \<Rightarrow>
             (Inr [(''statusCode'', PyInt 200),
                   (''body'', PyStr (json_dumps env None (PyDict
                      [(''message'', PyStr ''Summary generated successfully''),
                       (''total_items'', PyInt total_count),
                       (''s3_key'', PyStr s3_key),
                       (''summary'', summary)])))],
              puts))"

text \<open>
  The body of the \<open>try\<close> block of \<open>handler\<close> (lines 44 to 97). The two inner
  \<open>except ClientError\<close> clauses log and raise again, so every exception leaves the block.
\<close>

definition weekly_summary_try ::
  "'k summary_env \<Rightarrow> ((py_exc + py_dict) \<times> put_object_request list) option" where
  "weekly_summary_try env =
     (let end_time = utcnow env;
          start_time = minus_days end_time 7;
          start_timestamp = int_timestamp start_time;
          end_timestamp = int_timestamp end_time
      in case scan_table (table_scan env) start_timestamp end_timestamp of
           None \<Rightarrow> None
         | Some (Inl e) \<Rightarrow> Some (Inl e, [])
         | Some (Inr (total_count, user_stats, event_stats)) \<Rightarrow>
             Some (report_and_upload env start_time end_time total_count user_stats event_stats))"

text \<open>
  \<open>handler(event, context)\<close> of the aggregator: whatever the \<open>try\<close> block raises becomes
  the returned 500 document. The event is not read.
\<close>

definition weekly_summary_handler ::
  "'k summary_env \<Rightarrow> (py_dict \<times> put_object_request list) option" where
  "weekly_summary_handler env =
     (case weekly_summary_try env of
        None \<Rightarrow> None
      | Some (Inr response, puts) \<Rightarrow> Some (response, puts)
      | Some (Inl e, puts) \<Rightarrow>
          Some ([(''statusCode'', PyInt 500),
                 (''body'', PyStr (json_dumps env None
                    (PyDict [(''error'', PyStr ''Failed to generate summary'')])))],
                puts))"

text \<open>The objects a run leaves in the bucket: the requests that \<open>s3.put_object\<close> accepted.\<close>

definition persisted :: "'k summary_env \<Rightarrow> put_object_request list \<Rightarrow> put_object_request list" where
  "persisted env puts = filter (\<lambda>request. s3_put_object env request = None) puts"

subsection \<open>A record store\<close>

text \<open>
  The filter expression of the scan,
  \<open>attribute_exists(userId) AND #ts BETWEEN :start AND :end\<close>, on one item: the item has
  a \<open>userId\<close> attribute and a \<open>timestamp\<close> between the bounds, both included.
\<close>

definition filter_expression :: "int \<Rightarrow> int \<Rightarrow> item \<Rightarrow> bool" where
  "filter_expression start_ts end_ts it =
     (userId it \<noteq> None \<and>
      (case timestamp it of None \<Rightarrow> False | Some t \<Rightarrow> start_ts \<le> t \<and> t \<le> end_ts))"

text \<open>
  A record store that holds the table \<open>tbl\<close> in scan order and answers one scan call as
  DynamoDB does: it examines at most \<open>page_size\<close> items (at least one) from the start key
  on, returns those that satisfy the filter expression, and returns a
  \<open>LastEvaluatedKey\<close> while items remain. The key is the position to resume from.
\<close>

definition record_store_scan ::
  "item list \<Rightarrow> nat \<Rightarrow> int \<Rightarrow> int \<Rightarrow> nat option \<Rightarrow> py_exc + nat scan_response" where
  "record_store_scan tbl page_size start_ts end_ts start_key =
     (let pos = (case start_key of None \<Rightarrow> 0 | Some p \<Rightarrow> p);
          n = max 1 page_size;
          examined = take n (drop pos tbl)
      in Inr \<lparr>Items = Some (filter (filter_expression start_ts end_ts) examined),
              LastEvaluatedKey = (if pos + n < length tbl then Some (pos + n) else None)\<rparr>)"

subsection \<open>Runs of the scan\<close>

text \<open>
  \<open>scan_run scan key pages\<close>: asked from \<open>key\<close> on, the store answers the successive scan
  calls with the responses \<open>pages\<close>, each call resuming at the \<open>LastEvaluatedKey\<close> of the
  response before it, and the last response has no \<open>LastEvaluatedKey\<close>.
\<close>

inductive scan_run ::
  "('k option \<Rightarrow> py_exc + 'k scan_response) \<Rightarrow> 'k option \<Rightarrow> 'k scan_response list \<Rightarrow> bool" where
  last_page: "scan key = Inr r \<Longrightarrow> LastEvaluatedKey r = None \<Longrightarrow> scan_run scan key [r]"
| next_page: "scan key = Inr r \<Longrightarrow> LastEvaluatedKey r = Some k \<Longrightarrow> scan_run scan (Some k) rs
               \<Longrightarrow> scan_run scan key (r # rs)"

text \<open>The items of a run, in the order the scan returned them.\<close>

definition returned_items :: "'k scan_response list \<Rightarrow> item list" where
  "returned_items pages = concat (map (\<lambda>r. case Items r of None \<Rightarrow> [] | Some xs \<Rightarrow> xs) pages)"

section \<open>Concrete environments\<close>

text \<open>
  Small environments on which the handlers can be run. The library functions are
  stand-ins that are good enough to tell the handlers' outcomes apart.
\<close>

definition example_runtime :: py_runtime where
  \<open>example_runtime =
     \<lparr>py_repr = (\<lambda>v. ''<repr>''),
      json_loads = (\<lambda>s.
         if s = ''{}'' then Inr (PyDict [])
         else if s = ''{"userId": "u1"}'' then Inr (PyDict [(''userId'', PyStr ''u1'')])
         else if s = ''{"userId": "u1", "data": {}}'' then
           Inr (PyDict [(''userId'', PyStr ''u1''), (''data'', PyDict [])])
         else Inl (PyExc JSONDecodeError ''Expecting value'')),
      json_dumps = (\<lambda>indent v. case v of PyDict ((k, PyStr s) # _) \<Rightarrow> s | _ \<Rightarrow> ''<json>''),
      isoformat = (\<lambda>d. ''<iso>''),
      strftime = (\<lambda>d fmt. ''2024-01-08'')\<rparr>\<close>

text \<open>
  An authorizer environment whose clock reads 2024-01-08 00:00:00 UTC and whose
  signature check knows four tokens: one for the subject \<open>u1\<close> whose \<open>exp\<close> claim,
  1600000000, lies in the past of that clock, one with an \<open>exp\<close> claim in the future
  and no \<open>sub\<close> claim, one with no claims at all, and one for the subject \<open>u1\<close> with an
  \<open>exp\<close> claim in the future; any other token is malformed. The builtin \<open>int\<close> is
  given on integers only, and the checks of the other claims pass.
\<close>

definition example_auth_env :: auth_env where
  "example_auth_env =
     py_runtime.extend example_runtime
       (auth_env.fields (Some ''/app/jwt-secret'') (\<lambda>name. Inr ''secret'')
          (\<lambda>token key algorithms.
             if token = ''expired'' then
               Inr [(''sub'', PyStr ''u1''), (''exp'', PyInt 1600000000)]
             else if token = ''nosub'' then Inr [(''exp'', PyInt 2000000000)]
             else if token = ''noclaims'' then Inr []
             else if token = ''u1'' then
               Inr [(''sub'', PyStr ''u1''), (''exp'', PyInt 2000000000)]
             else Inl (PyExc InvalidTokenError ''Not enough segments''))
          1704672000
          (\<lambda>v. case v of PyInt n \<Rightarrow> Inr n
                | _ \<Rightarrow> Inl (PyExc ValueError ''invalid literal for int()''))
          (\<lambda>options payload. None)
          (\<lambda>options payload. None))"

definition example_auth_event :: "string \<Rightarrow> py_dict" where
  "example_auth_event header =
     [(''type'', PyStr ''TOKEN''),
      (''authorizationToken'', PyStr header),
      (''methodArn'', PyStr ''arn:aws:execute-api:eu-west-1:1:api/prod/POST/data'')]"

definition example_ingest_env :: ingest_env where
  "example_ingest_env =
     py_runtime.extend example_runtime
       (ingest_env.fields ''0b0e7a58-0000-4000-8000-000000000001''
          \<lparr>epoch_seconds = 1704672000, microsecond = 250000\<rparr>
          \<lparr>epoch_seconds = 1704672000, microsecond = 250100\<rparr>
          (\<lambda>item. None))"

definition example_ingest_event :: "string \<Rightarrow> py_dict" where
  "example_ingest_event raw_body =
     [(''requestContext'', PyDict
         [(''authorizer'', PyDict [(''userId'', PyStr ''svc''), (''email'', PyStr ''svc@example.org'')])]),
      (''body'', PyStr raw_body)]"

text \<open>
  An aggregator environment whose clock reads 2024-01-08 00:00:00 UTC, so that the
  window is \<open>[1704067200, 1704672000]\<close>; the scan and the outcome of \<open>s3.put_object\<close> are
  left open.
\<close>

definition example_summary_env ::
  "(int \<Rightarrow> int \<Rightarrow> nat option \<Rightarrow> py_exc + nat scan_response)
     \<Rightarrow> (put_object_request \<Rightarrow> py_exc option) \<Rightarrow> nat summary_env" where
  "example_summary_env scan put =
     py_runtime.extend example_runtime
       (summary_env.fields \<lparr>epoch_seconds = 1704672000, microsecond = 0\<rparr> scan
          (Some ''summary-bucket'') put)"

text \<open>
  A table of five items. Three lie inside the window, two of them on its bounds, and the
  one at the lower bound has an empty subject and no event type; one item is a second
  older than the window and one a second newer.
\<close>

definition example_table :: "item list" where
  "example_table =
     [\<lparr>userId = Some ''u1'', eventType = Some ''click'', timestamp = Some 1704600000\<rparr>,
      \<lparr>userId = Some ''u3'', eventType = Some ''click'', timestamp = Some 1704067199\<rparr>,
      \<lparr>userId = Some [], eventType = None, timestamp = Some 1704067200\<rparr>,
      \<lparr>userId = Some ''u3'', eventType = Some ''view'', timestamp = Some 1704672001\<rparr>,
      \<lparr>userId = Some ''u1'', eventType = None, timestamp = Some 1704672000\<rparr>]"

text \<open>A scan whose first page is empty and whose second call fails.\<close>

definition example_failing_scan :: "int \<Rightarrow> int \<Rightarrow> nat option \<Rightarrow> py_exc + nat scan_response" where
  "example_failing_scan start_ts end_ts start_key =
     (case start_key of
        None \<Rightarrow> Inr \<lparr>Items = Some [], LastEvaluatedKey = Some 1\<rparr>
      | Some k \<Rightarrow> Inl (PyExc ClientError ''ProvisionedThroughputExceededException''))"

section \<open>Properties of the token verifier\<close>

text \<open>
  Claim C1, as the code has it: a header that does not begin with \<open>Bearer \<close> makes the
  handler raise \<open>Exception('Unauthorized')\<close>, the same exception as every other failure,
  and the secret cache is left as it was. The \<open>ValueError\<close> raised for the missing prefix
  is caught by the last \<open>except\<close> clause; no separate malformed-credential error leaves
  the handler.
\<close>

theorem non_bearer_header_unauthorized:
  assumes "dict_get event ''authorizationToken'' (PyStr []) = PyStr s"
    and "\<not> prefix ''Bearer '' s"
  shows "authorizer_handler env cache event = (Inl (PyExc Exception ''Unauthorized''), cache)"
  using assms by (simp add: authorizer_handler_def authorizer_try_def)

theorem non_bearer_header_unauthorized_witness:
  "authorizer_handler example_auth_env None (example_auth_event ''Token abc'')
     = (Inl (PyExc Exception ''Unauthorized''), None)"
  using non_bearer_header_unauthorized
    [of "example_auth_event ''Token abc''" "''Token abc''" example_auth_env None]
  by (simp add: example_auth_event_def dict_get_def)

text \<open>
  Claim C1 as stated fails: for the header \<open>Token abc\<close> the outcome is the
  \<open>Unauthorized\<close> exception, and it is the very outcome of an expired bearer token.
\<close>

theorem non_bearer_header_counterexample:
  "fst (authorizer_handler example_auth_env None (example_auth_event ''Token abc''))
     = Inl (PyExc Exception ''Unauthorized'') \<and>
   fst (authorizer_handler example_auth_env None (example_auth_event ''Token abc''))
     = fst (authorizer_handler example_auth_env None (example_auth_event ''Bearer expired''))"
  by (simp add: authorizer_handler_def authorizer_try_def example_auth_event_def dict_get_def
      get_jwt_secret_def jwt_decode_def validate_exp_def jwt_option_def
      example_auth_env_def auth_env.defs py_runtime.defs example_runtime_def)

lemma authorizer_failure_uniform:
  "authorizer_handler env cache event = (Inl x, c) \<Longrightarrow> x = PyExc Exception ''Unauthorized''"
  by (cases "authorizer_try env cache event (dict_get event ''authorizationToken'' (PyStr []))")
     (auto simp add: authorizer_handler_def split: sum.splits if_splits)

text \<open>
  Whatever \<open>jwt.decode\<close> raises on a bearer token, the handler raises
  \<open>Exception('Unauthorized')\<close>.
\<close>

lemma decode_failure_unauthorized:
  assumes "dict_get event ''authorizationToken'' (PyStr []) = PyStr (''Bearer '' @ token)"
    and "get_jwt_secret env cache = (Inr secret_key, cache')"
    and "jwt_decode env token secret_key [''HS256'']
           [(''verify_exp'', True), (''verify_iat'', True)] = Inl e"
  shows "authorizer_handler env cache event = (Inl (PyExc Exception ''Unauthorized''), cache')"
  using assms by (simp add: authorizer_handler_def authorizer_try_def)

text \<open>
  With \<open>verify_exp\<close> on, a payload whose \<open>exp\<close> claim is not in the future of the clock
  does not leave \<open>jwt.decode\<close>: the call raises what one of the earlier checks raises,
  or else \<open>ExpiredSignatureError\<close>.
\<close>

lemma expired_payload_decode_fails:
  assumes "jwt_verify_signature env token key algorithms = Inr payload"
    and "map_of payload ''exp'' = Some v"
    and "py_int env v = Inr expiry"
    and "real_of_int expiry \<le> jwt_now env"
    and "jwt_option options ''verify_exp''"
  shows "jwt_decode env token key algorithms options =
           (case jwt_checks_before_exp env options payload of
              Some e \<Rightarrow> Inl e
            | None \<Rightarrow> Inl (PyExc ExpiredSignatureError ''Signature has expired''))"
  using assms by (simp add: jwt_decode_def validate_exp_def split: option.splits)

text \<open>
  Claim C8: a bearer token whose signature verifies and whose payload carries an \<open>exp\<close>
  claim that lies strictly in the past of the clock of the verification makes the handler
  raise \<open>Exception('Unauthorized')\<close>: the handler calls \<open>jwt.decode\<close> with \<open>verify_exp\<close>
  on, and when the checks that come before the expiry pass, \<open>jwt.decode\<close> raises
  \<open>ExpiredSignatureError\<close>, which the first \<open>except\<close> clause turns into that exception.
  The cause does not show in the outcome: expiry, a bad signature and malformed claims
  all leave the handler as the same exception, and no failure of the handler, on any
  event, is any other exception.
\<close>

theorem expired_token_unauthorized:
  assumes "dict_get event ''authorizationToken'' (PyStr []) = PyStr (''Bearer '' @ token)"
    and "get_jwt_secret env cache = (Inr secret_key, cache')"
    and "jwt_verify_signature env token secret_key [''HS256''] = Inr payload"
    and "map_of payload ''exp'' = Some v"
    and "py_int env v = Inr expiry"
    and "real_of_int expiry < jwt_now env"
  shows "authorizer_handler env cache event = (Inl (PyExc Exception ''Unauthorized''), cache') \<and>
         (jwt_checks_before_exp env [(''verify_exp'', True), (''verify_iat'', True)] payload = None
            \<longrightarrow> jwt_decode env token secret_key [''HS256'']
                   [(''verify_exp'', True), (''verify_iat'', True)] =
                 Inl (PyExc ExpiredSignatureError ''Signature has expired'')) \<and>
         (\<forall>event' cache0 x c. authorizer_handler env cache0 event' = (Inl x, c) \<longrightarrow>
            x = PyExc Exception ''Unauthorized'')"
proof (intro conjI allI impI)
  let ?options = "[(''verify_exp'', True), (''verify_iat'', True)]"
  have on: "jwt_option ?options ''verify_exp''"
    by (simp add: jwt_option_def dict_get_def)
  have decode: "jwt_decode env token secret_key [''HS256''] ?options =
           (case jwt_checks_before_exp env ?options payload of
              Some e \<Rightarrow> Inl e
            | None \<Rightarrow> Inl (PyExc ExpiredSignatureError ''Signature has expired''))"
    using assms(3-5) less_imp_le [OF assms(6)] on by (rule expired_payload_decode_fails)
  then obtain e where "jwt_decode env token secret_key [''HS256''] ?options = Inl e"
    by (cases "jwt_checks_before_exp env ?options payload") simp_all
  with assms(1,2)
  show "authorizer_handler env cache event = (Inl (PyExc Exception ''Unauthorized''), cache')"
    by (rule decode_failure_unauthorized)
  show "jwt_decode env token secret_key [''HS256''] ?options =
          Inl (PyExc ExpiredSignatureError ''Signature has expired'')"
    if "jwt_checks_before_exp env ?options payload = None"
    using decode that by simp
  show "x = PyExc Exception ''Unauthorized''"
    if "authorizer_handler env cache0 event' = (Inl x, c)" for event' cache0 x c
    using that by (rule authorizer_failure_uniform)
qed

theorem expired_token_unauthorized_witness:
  "authorizer_handler example_auth_env None (example_auth_event ''Bearer expired'')
     = (Inl (PyExc Exception ''Unauthorized''), Some ''secret'') \<and>
   jwt_decode example_auth_env ''expired'' ''secret'' [''HS256'']
       [(''verify_exp'', True), (''verify_iat'', True)] =
     Inl (PyExc ExpiredSignatureError ''Signature has expired'')"
  using expired_token_unauthorized [of "example_auth_event ''Bearer expired''" "''expired''"
      example_auth_env None "''secret''" "Some ''secret''"
      "[(''sub'', PyStr ''u1''), (''exp'', PyInt 1600000000)]" "PyInt 1600000000" 1600000000]
  by (simp add: example_auth_event_def dict_get_def get_jwt_secret_def example_auth_env_def
      auth_env.defs py_runtime.defs example_runtime_def)

text \<open>
  Claim C9, as the code has it: a bearer token that decodes to a payload without a
  \<open>sub\<close> claim is accepted with an Allow policy whose principal is \<open>unknown\<close>. When the
  payload carries at least one claim, the policy has a context whose \<open>userId\<close> is the
  empty string and whose \<open>email\<close> and \<open>scope\<close> are the empty string when the claim is
  missing; when the payload is empty, \<open>if context_data:\<close> is false and the policy has
  no context at all.
\<close>

theorem token_without_sub_allowed:
  assumes "dict_get event ''authorizationToken'' (PyStr []) = PyStr (''Bearer '' @ token)"
    and "get_jwt_secret env cache = (Inr secret_key, cache')"
    and "jwt_decode env token secret_key [''HS256'']
           [(''verify_exp'', True), (''verify_iat'', True)] = Inr payload"
    and "map_of payload ''sub'' = None"
    and "map_of event ''methodArn'' = Some arn"
  shows "authorizer_handler env cache event =
    (Inr ([(''principalId'', PyStr ''unknown''),
           (''policyDocument'', PyDict
              [(''Version'', PyStr ''2012-10-17''),
               (''Statement'', PyList
                  [PyDict [(''Action'', PyStr ''execute-api:Invoke''),
                           (''Effect'', PyStr ''Allow''),
                           (''Resource'', arn)]])])]
          @ (if payload = [] then []
             else [(''context'', PyDict
                     [(''userId'', PyStr []),
                      (''email'', PyStr (case map_of payload ''email'' of
                                           None \<Rightarrow> [] | Some v \<Rightarrow> py_str (py_repr env) v)),
                      (''scope'', PyStr (case map_of payload ''scope'' of
                                           None \<Rightarrow> [] | Some v \<Rightarrow> py_str (py_repr env) v))])])),
     cache')"
  using assms
  by (simp add: authorizer_handler_def authorizer_try_def generate_policy_def dict_get_def
      dict_subscript_def py_str_def split: option.splits)

theorem token_without_sub_allowed_witness:
  "authorizer_handler example_auth_env None (example_auth_event ''Bearer nosub'') =
    (Inr [(''principalId'', PyStr ''unknown''),
          (''policyDocument'', PyDict
              [(''Version'', PyStr ''2012-10-17''),
               (''Statement'', PyList
                  [PyDict [(''Action'', PyStr ''execute-api:Invoke''),
                           (''Effect'', PyStr ''Allow''),
                           (''Resource'', PyStr ''arn:aws:execute-api:eu-west-1:1:api/prod/POST/data'')]])]),
          (''context'', PyDict
              [(''userId'', PyStr []), (''email'', PyStr []), (''scope'', PyStr [])])],
     Some ''secret'')"
  using token_without_sub_allowed [of "example_auth_event ''Bearer nosub''" "''nosub''"
      example_auth_env None "''secret''" "Some ''secret''" "[(''exp'', PyInt 2000000000)]"
      "PyStr ''arn:aws:execute-api:eu-west-1:1:api/prod/POST/data''"]
  by (simp add: example_auth_event_def dict_get_def get_jwt_secret_def
      jwt_decode_def validate_exp_def jwt_option_def example_auth_env_def
      auth_env.defs py_runtime.defs example_runtime_def)

text \<open>
  Claim C9 as stated fails for a token with no claims at all: the policy that is
  returned has the principal \<open>unknown\<close> and no \<open>context\<close> entry, so no \<open>userId\<close>,
  \<open>email\<close> or \<open>scope\<close> field, empty or not.
\<close>

theorem token_without_claims_counterexample:
  "authorizer_handler example_auth_env None (example_auth_event ''Bearer noclaims'') =
    (Inr [(''principalId'', PyStr ''unknown''),
          (''policyDocument'', PyDict
              [(''Version'', PyStr ''2012-10-17''),
               (''Statement'', PyList
                  [PyDict [(''Action'', PyStr ''execute-api:Invoke''),
                           (''Effect'', PyStr ''Allow''),
                           (''Resource'', PyStr ''arn:aws:execute-api:eu-west-1:1:api/prod/POST/data'')]])])],
     Some ''secret'')"
  by (simp add: authorizer_handler_def authorizer_try_def example_auth_event_def dict_get_def
      get_jwt_secret_def jwt_decode_def validate_exp_def jwt_option_def
      example_auth_env_def auth_env.defs py_runtime.defs example_runtime_def
      generate_policy_def dict_subscript_def)

section \<open>Properties of the ingest handler\<close>

text \<open>
  Claim C5: when the authorizer context can be read and the body parses as a JSON
  object that lacks the key \<open>userId\<close> or the key \<open>data\<close>, the handler returns the
  400 response \<open>Missing required fields: userId, data\<close> and hands no item to
  \<open>table.put_item\<close>.
\<close>

theorem missing_field_rejected:
  assumes "py_get (dict_get event ''requestContext'' (PyDict [])) ''authorizer'' (PyDict [])
             = Inr (PyDict authorizer_context)"
    and "dict_get event ''body'' (PyStr ''{}'') = PyStr raw_body"
    and "json_loads env raw_body = Inr (PyDict body)"
    and "''userId'' \<notin> fst ` set body \<or> ''data'' \<notin> fst ` set body"
  shows "ingest_handler env event =
     ([(''statusCode'', PyInt 400),
       (''headers'', PyDict
          [(''Content-Type'', PyStr ''application/json''),
           (''Access-Control-Allow-Origin'', PyStr ''*''),
           (''Access-Control-Allow-Headers'', PyStr ''Content-Type,Authorization,X-Api-Key''),
           (''Access-Control-Allow-Methods'', PyStr ''POST,OPTIONS'')]),
       (''body'', PyStr (json_dumps env None
          (PyDict [(''error'', PyStr ''Missing required fields: userId, data'')])))],
      [])"
  using assms
  by (auto simp add: ingest_handler_def ingest_try_def py_get_def py_json_loads_def
      missing_required_def py_contains_def create_response_def)

theorem missing_field_rejected_witness:
  \<open>ingest_handler example_ingest_env (example_ingest_event ''{"userId": "u1"}'') =
     ([(''statusCode'', PyInt 400),
       (''headers'', PyDict
          [(''Content-Type'', PyStr ''application/json''),
           (''Access-Control-Allow-Origin'', PyStr ''*''),
           (''Access-Control-Allow-Headers'', PyStr ''Content-Type,Authorization,X-Api-Key''),
           (''Access-Control-Allow-Methods'', PyStr ''POST,OPTIONS'')]),
       (''body'', PyStr (json_dumps example_ingest_env None
          (PyDict [(''error'', PyStr ''Missing required fields: userId, data'')])))],
      [])\<close>
  using missing_field_rejected [of \<open>example_ingest_event ''{"userId": "u1"}''\<close>
      "[(''userId'', PyStr ''svc''), (''email'', PyStr ''svc@example.org'')]"
      \<open>''{"userId": "u1"}''\<close> example_ingest_env "[(''userId'', PyStr ''u1'')]"]
  by (simp add: example_ingest_event_def dict_get_def py_get_def example_ingest_env_def
      ingest_env.defs py_runtime.defs example_runtime_def)

text \<open>
  Claim C7: when the body parses as a JSON object with the keys \<open>userId\<close> and \<open>data\<close>
  and the store accepts the write, the handler hands exactly one item to
  \<open>table.put_item\<close>. Its \<open>id\<close> is the identifier drawn from \<open>uuid.uuid4()\<close> and its
  \<open>timestamp\<close> the whole seconds of the clock, its \<open>userId\<close> is the one of the request,
  and \<open>authenticatedUser\<close> and \<open>userEmail\<close> are the authorizer's \<open>userId\<close> and
  \<open>email\<close>, kept in fields of their own. The response has the \<open>statusCode\<close> 200, the
  four headers of \<open>create_response\<close>, and as \<open>body\<close> the \<open>json.dumps\<close> text of the
  document with the success message, that identifier and that timestamp.
\<close>

theorem valid_request_stored:
  assumes "py_get (dict_get event ''requestContext'' (PyDict [])) ''authorizer'' (PyDict [])
             = Inr (PyDict authorizer_context)"
    and "dict_get event ''body'' (PyStr ''{}'') = PyStr raw_body"
    and "json_loads env raw_body = Inr (PyDict body)"
    and "map_of body ''userId'' = Some user_id"
    and "map_of body ''data'' = Some data_payload"
    and "item =
           [(''id'', PyStr (uuid4 env)),
            (''timestamp'', PyInt (epoch_seconds (now_for_timestamp env))),
            (''userId'', user_id),
            (''eventType'', dict_get body ''eventType'' (PyStr ''unknown'')),
            (''data'', data_payload),
            (''createdAt'', PyStr (isoformat env (now_for_created_at env))),
            (''authenticatedUser'', dict_get authorizer_context ''userId'' (PyStr ''unknown'')),
            (''userEmail'', dict_get authorizer_context ''email'' (PyStr []))]"
    and "table_put_item env item = None"
  shows "ingest_handler env event =
     ([(''statusCode'', PyInt 200),
       (''headers'', PyDict
          [(''Content-Type'', PyStr ''application/json''),
           (''Access-Control-Allow-Origin'', PyStr ''*''),
           (''Access-Control-Allow-Headers'', PyStr ''Content-Type,Authorization,X-Api-Key''),
           (''Access-Control-Allow-Methods'', PyStr ''POST,OPTIONS'')]),
       (''body'', PyStr (json_dumps env None
          (PyDict [(''message'', PyStr ''Data ingested successfully''),
                   (''id'', PyStr (uuid4 env)),
                   (''timestamp'', PyInt (epoch_seconds (now_for_timestamp env)))])))],
      [item])"
proof -
  have keys: "''userId'' \<in> fst ` set body" "''data'' \<in> fst ` set body"
    using assms(4,5) by (auto dest!: map_of_SomeD intro: rev_image_eqI)
  have "missing_required (PyDict body) = Inr False"
    using keys by (simp add: missing_required_def py_contains_def)
  moreover have "ingest_store env (dict_get authorizer_context ''userId'' (PyStr ''unknown''))
      (dict_get authorizer_context ''email'' (PyStr [])) (PyDict body) =
     (Inr (create_response env 200
        (PyDict [(''message'', PyStr ''Data ingested successfully''),
                 (''id'', PyStr (uuid4 env)),
                 (''timestamp'', PyInt (epoch_seconds (now_for_timestamp env)))])),
      [item])"
    using assms(4-7) by (simp add: ingest_store_def py_get_def dict_get_def int_timestamp_def Let_def)
  ultimately show ?thesis
    using assms(1-3)
    by (simp add: ingest_handler_def ingest_try_def py_get_def py_json_loads_def
        create_response_def)
qed

theorem valid_request_stored_witness:
  \<open>ingest_handler example_ingest_env (example_ingest_event ''{"userId": "u1", "data": {}}'') =
     ([(''statusCode'', PyInt 200),
       (''headers'', PyDict
          [(''Content-Type'', PyStr ''application/json''),
           (''Access-Control-Allow-Origin'', PyStr ''*''),
           (''Access-Control-Allow-Headers'', PyStr ''Content-Type,Authorization,X-Api-Key''),
           (''Access-Control-Allow-Methods'', PyStr ''POST,OPTIONS'')]),
       (''body'', PyStr (json_dumps example_ingest_env None
          (PyDict [(''message'', PyStr ''Data ingested successfully''),
                   (''id'', PyStr ''0b0e7a58-0000-4000-8000-000000000001''),
                   (''timestamp'', PyInt 1704672000)])))],
      [[(''id'', PyStr ''0b0e7a58-0000-4000-8000-000000000001''),
        (''timestamp'', PyInt 1704672000),
        (''userId'', PyStr ''u1''),
        (''eventType'', PyStr ''unknown''),
        (''data'', PyDict []),
        (''createdAt'', PyStr ''<iso>''),
        (''authenticatedUser'', PyStr ''svc''),
        (''userEmail'', PyStr ''svc@example.org'')]])\<close>
  using valid_request_stored [of \<open>example_ingest_event ''{"userId": "u1", "data": {}}''\<close>
      "[(''userId'', PyStr ''svc''), (''email'', PyStr ''svc@example.org'')]"
      \<open>''{"userId": "u1", "data": {}}''\<close> example_ingest_env
      "[(''userId'', PyStr ''u1''), (''data'', PyDict [])]" "PyStr ''u1''" "PyDict []", OF _ _ _ _ _ refl]
  by (simp add: example_ingest_event_def dict_get_def py_get_def example_ingest_env_def
      ingest_env.defs py_runtime.defs example_runtime_def)

text \<open>
  Claim C10: when the event has no \<open>body\<close> key, \<open>event.get("body", "{}")\<close> hands the
  text \<open>{}\<close> to \<open>json.loads\<close>, which parses it as the empty object; the handler returns
  the 400 response for missing fields, not the one for invalid JSON, and hands no item
  to \<open>table.put_item\<close>.
\<close>

theorem absent_body_rejected:
  assumes "py_get (dict_get event ''requestContext'' (PyDict [])) ''authorizer'' (PyDict [])
             = Inr (PyDict authorizer_context)"
    and "map_of event ''body'' = None"
    and "json_loads env ''{}'' = Inr (PyDict [])"
  shows "ingest_handler env event =
     ([(''statusCode'', PyInt 400),
       (''headers'', PyDict
          [(''Content-Type'', PyStr ''application/json''),
           (''Access-Control-Allow-Origin'', PyStr ''*''),
           (''Access-Control-Allow-Headers'', PyStr ''Content-Type,Authorization,X-Api-Key''),
           (''Access-Control-Allow-Methods'', PyStr ''POST,OPTIONS'')]),
       (''body'', PyStr (json_dumps env None
          (PyDict [(''error'', PyStr ''Missing required fields: userId, data'')])))],
      [])"
  using assms
  by (simp add: ingest_handler_def ingest_try_def py_get_def py_json_loads_def
      missing_required_def py_contains_def dict_get_def create_response_def)

theorem absent_body_rejected_witness:
  "ingest_handler example_ingest_env [] =
     ([(''statusCode'', PyInt 400),
       (''headers'', PyDict
          [(''Content-Type'', PyStr ''application/json''),
           (''Access-Control-Allow-Origin'', PyStr ''*''),
           (''Access-Control-Allow-Headers'', PyStr ''Content-Type,Authorization,X-Api-Key''),
           (''Access-Control-Allow-Methods'', PyStr ''POST,OPTIONS'')]),
       (''body'', PyStr (json_dumps example_ingest_env None
          (PyDict [(''error'', PyStr ''Missing required fields: userId, data'')])))],
      [])"
  using absent_body_rejected [of "[]" "[]" example_ingest_env]
  by (simp add: dict_get_def py_get_def example_ingest_env_def
      ingest_env.defs py_runtime.defs example_runtime_def)

subsection \<open>Bodies that are not objects\<close>

text \<open>
  The default of \<open>event.get("body", "{}")\<close> covers the absent key only: a \<open>body\<close> that is
  \<open>None\<close> makes \<open>json.loads\<close> raise \<open>TypeError\<close>, and a body that parses to a number makes
  the membership test raise \<open>TypeError\<close>; both end as the 500 response, with no write.
\<close>

lemma null_body_internal_error:
  assumes "py_get (dict_get event ''requestContext'' (PyDict [])) ''authorizer'' (PyDict [])
             = Inr (PyDict authorizer_context)"
    and "map_of event ''body'' = Some PyNone"
  shows "ingest_handler env event =
     (create_response env 500 (PyDict [(''error'', PyStr ''Internal server error'')]), [])"
  using assms
  by (simp add: ingest_handler_def ingest_try_def py_get_def py_json_loads_def dict_get_def)

lemma number_body_internal_error:
  assumes "py_get (dict_get event ''requestContext'' (PyDict [])) ''authorizer'' (PyDict [])
             = Inr (PyDict authorizer_context)"
    and "dict_get event ''body'' (PyStr ''{}'') = PyStr raw_body"
    and "json_loads env raw_body = Inr (PyInt n)"
  shows "ingest_handler env event =
     (create_response env 500 (PyDict [(''error'', PyStr ''Internal server error'')]), [])"
  using assms
  by (simp add: ingest_handler_def ingest_try_def py_get_def py_json_loads_def
      missing_required_def py_contains_def)

section \<open>Properties of the aggregator\<close>

subsection \<open>Counting\<close>

lemma dict_get_setitem:
  "dict_get (dict_setitem d k v) k' dflt = (if k' = k then v else dict_get d k' dflt)"
  by (simp add: dict_get_def dict_setitem_def update_conv')

lemma process_items_append:
  "process_items (xs @ ys) us es =
     (case process_items xs us es of (us', es') \<Rightarrow> process_items ys us' es')"
  by (induction xs arbitrary: us es) (simp_all add: Let_def)

lemma process_items_users:
  "dict_get (fst (process_items items us es)) u 0 =
     dict_get us u 0 + int (length (filter (\<lambda>it. userId it = Some u \<and> u \<noteq> []) items))"
  by (induction items arbitrary: us es)
     (auto simp add: Let_def dict_get_setitem split: option.splits)

lemma process_items_events:
  "dict_get (snd (process_items items us es)) t 0 =
     dict_get es t 0 +
     int (length (filter (\<lambda>it. (case eventType it of None \<Rightarrow> ''unknown'' | Some l \<Rightarrow> l) = t) items))"
  by (induction items arbitrary: us es)
     (auto simp add: Let_def dict_get_setitem split: option.splits)

lemma process_items_skip_user:
  "userId it = None \<or> userId it = Some [] \<Longrightarrow>
   fst (process_items (xs @ it # ys) us es) = fst (process_items (xs @ ys) us es)"
proof -
  have fst_indep: "fst (process_items zs us es) = fst (process_items zs us es')" for zs us es es'
    by (induction zs arbitrary: us es es') (simp_all add: Let_def)
  assume "userId it = None \<or> userId it = Some []"
  then show ?thesis
    by (auto simp add: process_items_append Let_def split: prod.splits intro: fst_indep)
qed

lemma process_page_eq:
  "process_page p (n, us, es) =
     (n + int (length (returned_items [p])), process_items (returned_items [p]) us es)"
  by (simp add: process_page_def returned_items_def Let_def split: prod.splits)

lemma returned_items_Cons:
  "returned_items (p # pages) = returned_items [p] @ returned_items pages"
  by (simp add: returned_items_def)

lemma foldl_process_page:
  "foldl (\<lambda>a p. process_page p a) (n, us, es) pages =
     (n + int (length (returned_items pages)), process_items (returned_items pages) us es)"
proof (induction pages arbitrary: n us es)
  case Nil
  show ?case by (simp add: returned_items_def)
next
  case (Cons p pages)
  obtain us' es' where pi: "process_items (returned_items [p]) us es = (us', es')"
    by (cases "process_items (returned_items [p]) us es")
  have "foldl (\<lambda>a p. process_page p a) (n, us, es) (p # pages) =
        foldl (\<lambda>a p. process_page p a) (n + int (length (returned_items [p])), us', es') pages"
    by (simp add: process_page_eq pi)
  also have "\<dots> = (n + int (length (returned_items [p])) + int (length (returned_items pages)),
                    process_items (returned_items pages) us' es')"
    by (rule Cons)
  also have "\<dots> = (n + int (length (returned_items (p # pages))),
                    process_items (returned_items (p # pages)) us es)"
    by (simp add: returned_items_Cons [of p pages] process_items_append pi)
  finally show ?case .
qed

lemma scan_pages_run:
  "scan_run scan key rs \<Longrightarrow> key = Some k \<Longrightarrow> LastEvaluatedKey r = Some k \<Longrightarrow>
   scan_pages scan r acc = Some (Inr (foldl (\<lambda>a p. process_page p a) acc rs))"
proof (induction arbitrary: k r acc rule: scan_run.induct)
  case (last_page scan key r')
  then show ?case
    by (subst scan_pages.simps) (simp add: scan_pages.simps [of scan r'])
next
  case (next_page scan key r' k' rs)
  then show ?case
    by (subst scan_pages.simps) simp
qed

lemma scan_table_run:
  assumes "scan_run (ts s e) None pages"
  shows "scan_table ts s e =
     Some (Inr (int (length (returned_items pages)), process_items (returned_items pages) [] []))"
  using assms
proof (cases rule: scan_run.cases)
  case (last_page r)
  then show ?thesis
    by (simp add: scan_table_def scan_pages.simps [of _ r] process_page_def returned_items_def
        split: prod.splits option.splits)
next
  case (next_page r k rs)
  have "scan_pages (ts s e) r (process_page r (0, [], [])) =
          Some (Inr (foldl (\<lambda>a p. process_page p a) (process_page r (0, [], [])) rs))"
    using next_page by (intro scan_pages_run [of _ "Some k"]) simp_all
  also have "foldl (\<lambda>a p. process_page p a) (process_page r (0, [], [])) rs =
     foldl (\<lambda>a p. process_page p a) (0, [], []) (r # rs)" by simp
  finally show ?thesis
    using next_page by (simp add: scan_table_def foldl_process_page del: foldl_Cons)
qed

lemma record_store_run:
  "\<exists>pages. scan_run (record_store_scan tbl n s e) (Some pos) pages \<and>
           returned_items pages = filter (filter_expression s e) (drop pos tbl)"
proof (induction "length tbl - pos" arbitrary: pos rule: less_induct)
  case less
  let ?m = "max 1 n"
  let ?r = "\<lparr>Items = Some (filter (filter_expression s e) (take ?m (drop pos tbl))),
             LastEvaluatedKey = (if pos + ?m < length tbl then Some (pos + ?m) else None)\<rparr>"
  have r: "record_store_scan tbl n s e (Some pos) = Inr ?r"
    by (simp add: record_store_scan_def Let_def)
  show ?case
  proof (cases "pos + ?m < length tbl")
    case True
    then have "length tbl - (pos + ?m) < length tbl - pos" by simp
    from less [OF this] obtain pages where
      run: "scan_run (record_store_scan tbl n s e) (Some (pos + ?m)) pages"
      and items: "returned_items pages = filter (filter_expression s e) (drop (pos + ?m) tbl)"
      by blast
    have "scan_run (record_store_scan tbl n s e) (Some pos) (?r # pages)"
      using r True run by (intro scan_run.next_page [where k = "pos + ?m"]) simp_all
    moreover have "returned_items (?r # pages) = filter (filter_expression s e) (drop pos tbl)"
    proof -
      have "drop pos tbl = take ?m (drop pos tbl) @ drop (pos + ?m) tbl"
        by (metis add.commute append_take_drop_id drop_drop)
      then have "filter (filter_expression s e) (drop pos tbl) =
          filter (filter_expression s e) (take ?m (drop pos tbl)) @
          filter (filter_expression s e) (drop (pos + ?m) tbl)"
        by (metis filter_append)
      then show ?thesis using items by (simp add: returned_items_def)
    qed
    ultimately show ?thesis by blast
  next
    case False
    have "scan_run (record_store_scan tbl n s e) (Some pos) [?r]"
      using r False by (intro scan_run.last_page) simp_all
    moreover have "returned_items [?r] = filter (filter_expression s e) (drop pos tbl)"
      using False by (simp add: returned_items_def)
    ultimately show ?thesis by blast
  qed
qed

lemma record_store_scan_None:
  "record_store_scan tbl n s e None = record_store_scan tbl n s e (Some 0)"
  by (simp add: record_store_scan_def)

lemma scan_run_key_cong:
  "scan_run scan key pages \<Longrightarrow> scan key' = scan key \<Longrightarrow> scan_run scan key' pages"
  by (cases rule: scan_run.cases) (auto intro: scan_run.intros)

lemma record_store_run_None:
  "\<exists>pages. scan_run (record_store_scan tbl n s e) None pages \<and>
           returned_items pages = filter (filter_expression s e) tbl"
proof -
  obtain pages where run: "scan_run (record_store_scan tbl n s e) (Some 0) pages"
    and items: "returned_items pages = filter (filter_expression s e) tbl"
    using record_store_run [of tbl n s e 0] by auto
  have "scan_run (record_store_scan tbl n s e) None pages"
    using run by (rule scan_run_key_cong) (simp add: record_store_scan_None)
  then show ?thesis using items by blast
qed

lemma scan_table_record_store:
  "scan_table (record_store_scan tbl n) s e =
     Some (Inr (int (length (filter (filter_expression s e) tbl)),
                process_items (filter (filter_expression s e) tbl) [] []))"
proof -
  obtain pages where run: "scan_run (record_store_scan tbl n s e) None pages"
    and items: "returned_items pages = filter (filter_expression s e) tbl"
    using record_store_run_None [of tbl n s e] by auto
  then show ?thesis
    using scan_table_run [of "record_store_scan tbl n" s e pages] by (simp add: items)
qed

lemma dict_get_Nil: "dict_get [] k dflt = dflt"
  by (simp add: dict_get_def)

lemma fst_process_items_indep:
  "fst (process_items zs us es) = fst (process_items zs us es')"
  by (induction zs arbitrary: us es es') (simp_all add: Let_def)

text \<open>
  The filter expression asks for the \<open>userId\<close> attribute, so the record store never
  returns a record without one: such a record of the table reaches neither the
  statistics nor the total.
\<close>

lemma absent_subject_not_returned:
  "userId r = None \<Longrightarrow>
   scan_table (record_store_scan (xs @ r # ys) n) s e = scan_table (record_store_scan (xs @ ys) n) s e"
  by (simp add: scan_table_record_store filter_expression_def)

text \<open>
  The keys of the two dictionaries are in the order in which the scan first produced
  them.
\<close>

lemma keys_dict_setitem:
  "map fst (dict_setitem d k v) = (if k \<in> set (map fst d) then map fst d else map fst d @ [k])"
  by (simp add: dict_setitem_def update_keys)

lemma process_items_event_keys:
  "map fst (snd (process_items items us es)) =
     foldl (\<lambda>ks k. if k \<in> set ks then ks else ks @ [k]) (map fst es)
       (map (\<lambda>it. case eventType it of None \<Rightarrow> ''unknown'' | Some l \<Rightarrow> l) items)"
  by (induction items arbitrary: us es) (simp_all add: Let_def keys_dict_setitem)

lemma process_items_user_keys:
  "map fst (fst (process_items items us es)) =
     foldl (\<lambda>ks k. if k \<in> set ks then ks else ks @ [k]) (map fst us)
       (concat (map (\<lambda>it. case userId it of None \<Rightarrow> [] | Some u \<Rightarrow> if u \<noteq> [] then [u] else []) items))"
  by (induction items arbitrary: us es)
     (simp_all add: Let_def keys_dict_setitem split: option.splits)

text \<open>
  In a run of \<open>scan_table\<close> over the pages that a store returns, whatever the store,
  every returned record adds one to \<open>total_count\<close>. A record whose subject is missing
  or empty (the two cases that \<open>if user_id:\<close> rejects) leaves \<open>user_stats\<close> exactly as the
  other records make it, and a record whose event type is missing adds one to the
  counter of \<open>unknown\<close>. The run returns: the loop ends with the last page.
\<close>

lemma returned_record_counted:
  assumes "scan_run (scan s e) None pages"
    and "returned_items pages = xs @ it # ys"
  shows "\<exists>total_count user_stats event_stats.
     scan_table scan s e = Some (Inr (total_count, user_stats, event_stats)) \<and>
     total_count = int (length (xs @ ys)) + 1 \<and>
     (userId it = None \<or> userId it = Some [] \<longrightarrow>
        user_stats = fst (process_items (xs @ ys) [] [])) \<and>
     (eventType it = None \<longrightarrow>
        dict_get event_stats ''unknown'' 0 =
          int (length (filter (\<lambda>r. (case eventType r of None \<Rightarrow> ''unknown'' | Some l \<Rightarrow> l)
                                      = ''unknown'') (xs @ ys))) + 1)"
proof (intro exI conjI impI)
  show "scan_table scan s e =
     Some (Inr (int (length (xs @ it # ys)), fst (process_items (xs @ it # ys) [] []),
                snd (process_items (xs @ it # ys) [] [])))"
    using scan_table_run [of scan s e pages] assms by simp
  show "int (length (xs @ it # ys)) = int (length (xs @ ys)) + 1"
    by simp
  show "fst (process_items (xs @ it # ys) [] []) = fst (process_items (xs @ ys) [] [])"
    if "userId it = None \<or> userId it = Some []"
    using that by (rule process_items_skip_user)
  show "dict_get (snd (process_items (xs @ it # ys) [] [])) ''unknown'' 0 =
          int (length (filter (\<lambda>r. (case eventType r of None \<Rightarrow> ''unknown'' | Some l \<Rightarrow> l)
                                      = ''unknown'') (xs @ ys))) + 1"
    if "eventType it = None"
    using that by (simp add: process_items_events dict_get_Nil)
qed

text \<open>
  Claim C2, as the code has it: take a record \<open>r\<close> of the table whose timestamp lies in
  the window. When \<open>r\<close> has no \<open>userId\<close> attribute, the filter expression of the scan
  keeps it from being returned, and the result is the one for the table without
  \<open>r\<close>: the record counts toward nothing, not the total either. When the \<open>userId\<close> of
  \<open>r\<close> is the empty string, the record is returned: the total is one larger,
  \<open>user_stats\<close> is the same as without \<open>r\<close>, and when \<open>r\<close> has no event type the counter
  of \<open>unknown\<close> is one larger.
\<close>

theorem missing_subject_in_store:
  assumes "timestamp r = Some t" and "s \<le> t" and "t \<le> e"
  shows "\<exists>total_count user_stats event_stats.
     scan_table (record_store_scan (xs @ ys) n) s e
       = Some (Inr (total_count, user_stats, event_stats)) \<and>
     (userId r = None \<longrightarrow>
        scan_table (record_store_scan (xs @ r # ys) n) s e
          = Some (Inr (total_count, user_stats, event_stats))) \<and>
     (userId r = Some [] \<longrightarrow>
        (\<exists>event_stats'.
           scan_table (record_store_scan (xs @ r # ys) n) s e
             = Some (Inr (total_count + 1, user_stats, event_stats')) \<and>
           (eventType r = None \<longrightarrow>
              dict_get event_stats' ''unknown'' 0 = dict_get event_stats ''unknown'' 0 + 1)))"
proof -
  let ?f = "filter (filter_expression s e)"
  let ?R = "?f (xs @ ys)"
  have base: "scan_table (record_store_scan (xs @ ys) n) s e =
      Some (Inr (int (length ?R), fst (process_items ?R [] []), snd (process_items ?R [] [])))"
    by (simp add: scan_table_record_store)
  have absent: "scan_table (record_store_scan (xs @ r # ys) n) s e =
      Some (Inr (int (length ?R), fst (process_items ?R [] []), snd (process_items ?R [] [])))"
    if "userId r = None"
    using that by (simp add: scan_table_record_store filter_expression_def)
  have empty: "\<exists>event_stats'.
      scan_table (record_store_scan (xs @ r # ys) n) s e =
        Some (Inr (int (length ?R) + 1, fst (process_items ?R [] []), event_stats')) \<and>
      (eventType r = None \<longrightarrow>
         dict_get event_stats' ''unknown'' 0 =
           dict_get (snd (process_items ?R [] [])) ''unknown'' 0 + 1)"
    if u: "userId r = Some []"
  proof -
    have fr: "filter_expression s e r"
      using u assms by (simp add: filter_expression_def)
    have "fst (process_items (?f xs @ r # ?f ys) [] []) = fst (process_items (?f xs @ ?f ys) [] [])"
      using u by (intro process_items_skip_user) simp
    moreover have "dict_get (snd (process_items (?f xs @ r # ?f ys) [] [])) ''unknown'' 0 =
           dict_get (snd (process_items (?f xs @ ?f ys) [] [])) ''unknown'' 0 + 1"
      if "eventType r = None"
      using that by (simp add: process_items_events)
    ultimately show ?thesis
      by (intro exI [of _ "snd (process_items (?f xs @ r # ?f ys) [] [])"])
         (simp add: scan_table_record_store fr prod_eq_iff)
  qed
  show ?thesis
    by (rule exI [of _ "int (length ?R)"], rule exI [of _ "fst (process_items ?R [] [])"],
        rule exI [of _ "snd (process_items ?R [] [])"])
       (use base absent empty in blast)
qed

theorem missing_subject_in_store_witness:
  "scan_table (record_store_scan example_table 2) 1704067200 1704672000 =
      Some (Inr (3, [(''u1'', 2)], [(''click'', 1), (''unknown'', 2)])) \<and>
   scan_table (record_store_scan
     [\<lparr>userId = Some ''u1'', eventType = Some ''click'', timestamp = Some 1704600000\<rparr>,
      \<lparr>userId = Some ''u3'', eventType = Some ''click'', timestamp = Some 1704067199\<rparr>,
      \<lparr>userId = Some ''u3'', eventType = Some ''view'', timestamp = Some 1704672001\<rparr>,
      \<lparr>userId = Some ''u1'', eventType = None, timestamp = Some 1704672000\<rparr>] 2)
     1704067200 1704672000 =
      Some (Inr (2, [(''u1'', 2)], [(''click'', 1), (''unknown'', 1)]))"
proof -
  let ?xs = "[\<lparr>userId = Some ''u1'', eventType = Some ''click'', timestamp = Some 1704600000\<rparr>,
      \<lparr>userId = Some ''u3'', eventType = Some ''click'', timestamp = Some 1704067199\<rparr>]"
  let ?r = "\<lparr>userId = Some [], eventType = None, timestamp = Some 1704067200\<rparr>"
  let ?ys = "[\<lparr>userId = Some ''u3'', eventType = Some ''view'', timestamp = Some 1704672001\<rparr>,
      \<lparr>userId = Some ''u1'', eventType = None, timestamp = Some 1704672000\<rparr>]"
  have tbl: "example_table = ?xs @ ?r # ?ys"
    by (simp add: example_table_def)
  from missing_subject_in_store
    [of ?r 1704067200 1704067200 1704672000 ?xs ?ys 2]
  obtain total_count user_stats event_stats event_stats' where
    without: "scan_table (record_store_scan (?xs @ ?ys) 2) 1704067200 1704672000
       = Some (Inr (total_count, user_stats, event_stats))"
    and "with": "scan_table (record_store_scan (?xs @ ?r # ?ys) 2) 1704067200 1704672000
       = Some (Inr (total_count + 1, user_stats, event_stats'))"
    and unknown: "dict_get event_stats' ''unknown'' 0 = dict_get event_stats ''unknown'' 0 + 1"
    by auto
  have "scan_table (record_store_scan (?xs @ ?ys) 2) 1704067200 1704672000 =
      Some (Inr (2, [(''u1'', 2)], [(''click'', 1), (''unknown'', 1)]))"
    by (simp add: scan_table_record_store filter_expression_def Let_def dict_get_def
        dict_setitem_def)
  moreover have "snd (snd (projr (the (scan_table (record_store_scan (?xs @ ?r # ?ys) 2)
      1704067200 1704672000)))) = [(''click'', 1), (''unknown'', 2)]"
    by (simp add: scan_table_record_store filter_expression_def Let_def dict_get_def
        dict_setitem_def)
  ultimately show ?thesis
    using without "with" by (simp add: tbl)
qed

text \<open>
  Claim C2 as stated fails for a record of the table that has no \<open>userId\<close> attribute:
  it lies in the window, and the total of the run is 0.
\<close>

theorem missing_subject_counterexample:
  "scan_table (record_store_scan
     [\<lparr>userId = None, eventType = Some ''click'', timestamp = Some 1704600000\<rparr>] 2)
     1704067200 1704672000 = Some (Inr (0, [], []))"
  by (simp add: scan_table_record_store filter_expression_def)

subsection \<open>The window\<close>

lemma put_object_args_table_scan:
  "put_object_args (env\<lparr>table_scan := f\<rparr>) k s t n = put_object_args env k s t n"
  by (simp add: put_object_args_def)

lemma upload_summary_table_scan:
  "upload_summary_to_s3 (env\<lparr>table_scan := f\<rparr>) s t = upload_summary_to_s3 env s t"
  by (simp add: upload_summary_to_s3_def put_object_args_table_scan Let_def
      split: sum.splits option.splits)

lemma make_summary_table_scan:
  "make_summary (env\<lparr>table_scan := f\<rparr>) a b c d e = make_summary env a b c d e"
  by (simp add: make_summary_def)

lemma report_and_upload_table_scan:
  "report_and_upload (env\<lparr>table_scan := f\<rparr>) a b c d e = report_and_upload env a b c d e"
  by (simp add: report_and_upload_def make_summary_table_scan upload_summary_table_scan Let_def
      split: prod.splits sum.splits)

text \<open>
  Claim C3: over a record store that holds a table and applies the filter expression of
  the scan, the handler asks for the window from seven days (\<open>7 * 86400\<close> seconds)
  before the clock reading to the clock reading, both bounds included, and the report
  is computed from the records inside it. A record \<open>r\<close> whose timestamp lies strictly
  outside the window contributes nothing: the handler gives the same result, report
  and upload included, as over the table without \<open>r\<close>.
\<close>

theorem out_of_window_records_excluded:
  fixes env :: "nat summary_env"
  defines "end_ts \<equiv> epoch_seconds (utcnow env)"
  defines "in_window \<equiv> filter (filter_expression (end_ts - 7 * 86400) end_ts)"
  assumes "table_scan env = record_store_scan (xs @ r # ys) n"
    and "timestamp r = Some t"
    and "t < end_ts - 7 * 86400 \<or> end_ts < t"
  shows "weekly_summary_try env =
           Some (report_and_upload env (minus_days (utcnow env) 7) (utcnow env)
                   (int (length (in_window (xs @ ys))))
                   (fst (process_items (in_window (xs @ ys)) [] []))
                   (snd (process_items (in_window (xs @ ys)) [] []))) \<and>
         weekly_summary_handler env =
           weekly_summary_handler (env\<lparr>table_scan := record_store_scan (xs @ ys) n\<rparr>)"
proof -
  have skip: "in_window (xs @ r # ys) = in_window (xs @ ys)"
    using assms(4,5) by (auto simp add: in_window_def filter_expression_def)
  have try_eq: "weekly_summary_try env' =
           Some (report_and_upload env' (minus_days (utcnow env) 7) (utcnow env)
                   (int (length (in_window tbl)))
                   (fst (process_items (in_window tbl) [] []))
                   (snd (process_items (in_window tbl) [] [])))"
    if "table_scan env' = record_store_scan tbl n" and "utcnow env' = utcnow env"
    for env' :: "nat summary_env" and tbl
    using that
    by (simp add: weekly_summary_try_def Let_def int_timestamp_def minus_days_def
        scan_table_record_store in_window_def end_ts_def split: prod.splits)
  have one: "weekly_summary_try env =
           Some (report_and_upload env (minus_days (utcnow env) 7) (utcnow env)
                   (int (length (in_window (xs @ ys))))
                   (fst (process_items (in_window (xs @ ys)) [] []))
                   (snd (process_items (in_window (xs @ ys)) [] [])))"
    using try_eq [of env "xs @ r # ys"] assms(3) by (simp add: skip)
  have two: "weekly_summary_try (env\<lparr>table_scan := record_store_scan (xs @ ys) n\<rparr>) =
           weekly_summary_try env"
    using try_eq [of "env\<lparr>table_scan := record_store_scan (xs @ ys) n\<rparr>" "xs @ ys"]
    by (simp add: one report_and_upload_table_scan)
  show ?thesis
    using one two by (simp add: weekly_summary_handler_def split: prod.splits sum.splits)
qed

lemma example_summary_env_table_scan:
  "(example_summary_env scan put)\<lparr>table_scan := scan'\<rparr> = example_summary_env scan' put"
  by (simp add: example_summary_env_def summary_env.defs py_runtime.defs)

lemma example_summary_env_sel:
  "table_scan (example_summary_env scan put) = scan"
  "s3_put_object (example_summary_env scan put) = put"
  "utcnow (example_summary_env scan put) = \<lparr>epoch_seconds = 1704672000, microsecond = 0\<rparr>"
  by (simp_all add: example_summary_env_def summary_env.defs py_runtime.defs)

theorem out_of_window_records_excluded_witness:
  "weekly_summary_handler (example_summary_env (record_store_scan example_table 2) (\<lambda>request. None)) =
   weekly_summary_handler (example_summary_env (record_store_scan
     [\<lparr>userId = Some ''u1'', eventType = Some ''click'', timestamp = Some 1704600000\<rparr>,
      \<lparr>userId = Some [], eventType = None, timestamp = Some 1704067200\<rparr>,
      \<lparr>userId = Some ''u3'', eventType = Some ''view'', timestamp = Some 1704672001\<rparr>,
      \<lparr>userId = Some ''u1'', eventType = None, timestamp = Some 1704672000\<rparr>] 2) (\<lambda>request. None))"
  using out_of_window_records_excluded
    [of "example_summary_env (record_store_scan example_table 2) (\<lambda>request. None)"
        "[\<lparr>userId = Some ''u1'', eventType = Some ''click'', timestamp = Some 1704600000\<rparr>]"
        "\<lparr>userId = Some ''u3'', eventType = Some ''click'', timestamp = Some 1704067199\<rparr>"
        "[\<lparr>userId = Some [], eventType = None, timestamp = Some 1704067200\<rparr>,
          \<lparr>userId = Some ''u3'', eventType = Some ''view'', timestamp = Some 1704672001\<rparr>,
          \<lparr>userId = Some ''u1'', eventType = None, timestamp = Some 1704672000\<rparr>]"
        2 1704067199]
  by (simp add: example_summary_env_sel example_summary_env_table_scan example_table_def)

subsection \<open>Ranking\<close>

lemma slice_to_nat: "slice_to xs (int n) = take n xs"
  by (simp add: slice_to_def)

lemma sorted_reverse_desc: "sorted_wrt (\<lambda>a b. f b \<le> f a) (sorted_reverse f xs)"
proof -
  have "sorted (map (\<lambda>x. - f x) (sort_key (\<lambda>x. - f x) xs))"
    by (rule sorted_sort_key)
  then show ?thesis
    by (simp add: sorted_reverse_def sorted_map)
qed

lemma sorted_reverse_stable:
  "filter (\<lambda>x. f x = c) (sorted_reverse f xs) = filter (\<lambda>x. f x = c) xs"
  using sort_key_stable [of "\<lambda>x. - f x" "- c" xs]
  by (simp add: sorted_reverse_def)

lemma set_sorted_reverse: "set (sorted_reverse f xs) = set xs"
  by (simp add: sorted_reverse_def)

lemma length_sorted_reverse: "length (sorted_reverse f xs) = length xs"
  by (simp add: sorted_reverse_def)

lemma filter_take_prefix: "prefix (filter P (take n xs)) (filter P xs)"
proof -
  have "filter P xs = filter P (take n xs) @ filter P (drop n xs)"
    by (metis append_take_drop_id filter_append)
  then show ?thesis by (simp add: prefix_def)
qed

lemma sorted_wrt_take_drop:
  assumes "sorted_wrt P xs" and "a \<in> set (take n xs)" and "b \<in> set xs" and "b \<notin> set (take n xs)"
  shows "P a b"
proof -
  have "b \<in> set (drop n xs)"
    using assms(3,4) by (metis Un_iff append_take_drop_id set_append)
  moreover have "sorted_wrt P (take n xs @ drop n xs)"
    using assms(1) by simp
  ultimately show ?thesis
    using assms(2) unfolding sorted_wrt_append by blast
qed

text \<open>
  Claim C4: \<open>get_top_items\<close> with a limit \<open>n\<close> (10 in the handler) returns the
  \<open>name\<close>/\<open>count\<close> documents of the first \<open>n\<close> entries of the ranking, or of all
  entries when the dictionary has fewer than \<open>n\<close>: never more than \<open>n\<close>, and never
  fewer than there are to return. The entries are in descending order of count; the
  entries with one and the same count appear in the order they have in the dictionary,
  which is the order in which the scan first produced them, and no other key orders
  them; every entry left out has a count no larger than any entry returned. Together
  with the entries left out, \<open>rest\<close>, the entries returned are the whole dictionary in
  descending order of count, each count's entries in their dictionary order.
\<close>

theorem top_items_ranked:
  "\<exists>top rest.
     get_top_items stats_dict (int n) =
       map (\<lambda>(name, count). PyDict [(''name'', PyStr name), (''count'', PyInt count)]) top \<and>
     length top = min n (length stats_dict) \<and>
     set top \<subseteq> set stats_dict \<and>
     sorted_wrt (\<lambda>a b. snd b \<le> snd a) top \<and>
     (\<forall>c. prefix (filter (\<lambda>entry. snd entry = c) top)
                 (filter (\<lambda>entry. snd entry = c) stats_dict)) \<and>
     (\<forall>a b. a \<in> set top \<and> b \<in> set stats_dict \<and> b \<notin> set top \<longrightarrow> snd b \<le> snd a) \<and>
     sorted_wrt (\<lambda>a b. snd b \<le> snd a) (top @ rest) \<and>
     (\<forall>c. filter (\<lambda>entry. snd entry = c) (top @ rest) =
          filter (\<lambda>entry. snd entry = c) stats_dict)"
proof (intro exI conjI allI impI)
  let ?sorted = "sorted_reverse snd stats_dict"
  let ?top = "take n ?sorted"
  let ?rest = "drop n ?sorted"
  show "get_top_items stats_dict (int n) =
      map (\<lambda>(name, count). PyDict [(''name'', PyStr name), (''count'', PyInt count)]) ?top"
    by (simp add: get_top_items_def slice_to_nat)
  show "length ?top = min n (length stats_dict)"
    by (simp add: length_sorted_reverse min.commute)
  show "set ?top \<subseteq> set stats_dict"
    using set_take_subset [of n ?sorted] by (simp add: set_sorted_reverse)
  show sorted: "sorted_wrt (\<lambda>a b. snd b \<le> snd a) ?top"
    by (rule sorted_wrt_take) (rule sorted_reverse_desc)
  show "prefix (filter (\<lambda>entry. snd entry = c) ?top)
               (filter (\<lambda>entry. snd entry = c) stats_dict)" for c
    using filter_take_prefix [of "\<lambda>entry. snd entry = c" n ?sorted]
    by (simp add: sorted_reverse_stable)
  show "snd b \<le> snd a" if "a \<in> set ?top \<and> b \<in> set stats_dict \<and> b \<notin> set ?top" for a b
    using sorted_wrt_take_drop [of "\<lambda>a b. snd b \<le> snd a" ?sorted a n b] that
    by (simp add: sorted_reverse_desc set_sorted_reverse)
  show "sorted_wrt (\<lambda>a b. snd b \<le> snd a) (?top @ ?rest)"
    by (simp add: sorted_reverse_desc)
  show "filter (\<lambda>entry. snd entry = c) (?top @ ?rest) =
        filter (\<lambda>entry. snd entry = c) stats_dict" for c
    by (simp only: append_take_drop_id sorted_reverse_stable)
qed

theorem top_items_ranked_witness:
  "get_top_items [(''zed'', 5), (''bob'', 3), (''amy'', 5)] 2 =
     [PyDict [(''name'', PyStr ''zed''), (''count'', PyInt 5)],
      PyDict [(''name'', PyStr ''amy''), (''count'', PyInt 5)]] \<and>
   get_top_items [(''zed'', 5), (''bob'', 3), (''amy'', 5)] 10 =
     [PyDict [(''name'', PyStr ''zed''), (''count'', PyInt 5)],
      PyDict [(''name'', PyStr ''amy''), (''count'', PyInt 5)],
      PyDict [(''name'', PyStr ''bob''), (''count'', PyInt 3)]]"
proof -
  obtain top where
    eq: "get_top_items [(''zed'', 5), (''bob'', 3), (''amy'', 5)] (int 2) =
           map (\<lambda>(name, count). PyDict [(''name'', PyStr name), (''count'', PyInt count)]) top"
    and len: "length top = min 2 (length [(''zed'', 5::int), (''bob'', 3), (''amy'', 5)])"
    using top_items_ranked [of "[(''zed'', 5), (''bob'', 3), (''amy'', 5)]" 2] by blast
  have "get_top_items [(''zed'', 5), (''bob'', 3), (''amy'', 5)] (int 2) =
     [PyDict [(''name'', PyStr ''zed''), (''count'', PyInt 5)],
      PyDict [(''name'', PyStr ''amy''), (''count'', PyInt 5)]]"
    by (simp add: get_top_items_def sorted_reverse_def slice_to_def)
  moreover have "get_top_items [(''zed'', 5), (''bob'', 3), (''amy'', 5)] 10 =
     [PyDict [(''name'', PyStr ''zed''), (''count'', PyInt 5)],
      PyDict [(''name'', PyStr ''amy''), (''count'', PyInt 5)],
      PyDict [(''name'', PyStr ''bob''), (''count'', PyInt 3)]]"
    by (simp add: get_top_items_def sorted_reverse_def slice_to_def)
  ultimately show ?thesis using eq len by simp
qed

subsection \<open>Failed runs\<close>

text \<open>
  Claim C6: when the scan fails, the handler returns the 500 document and has made no
  \<open>s3.put_object\<close> call. When the scan succeeds and the one \<open>s3.put_object\<close> call of
  the run fails, the handler returns the 500 document and the bucket has accepted
  nothing. The failure is reported as the returned document.
\<close>

theorem failed_run_persists_nothing:
  fixes env :: "'k summary_env"
  defines "end_time \<equiv> utcnow env"
  defines "failure \<equiv>
     [(''statusCode'', PyInt 500),
      (''body'', PyStr (json_dumps env None
         (PyDict [(''error'', PyStr ''Failed to generate summary'')])))]"
  defines "request \<equiv> \<lambda>total_count user_stats event_stats.
     put_object_args env
       (''summaries/weekly-summary-'' @ strftime env end_time ''%Y-%m-%d'' @ ''.json'')
       (make_summary env (minus_days end_time 7) end_time total_count user_stats event_stats)
       end_time (PyInt total_count)"
  assumes "scan_table (table_scan env) (epoch_seconds end_time - 7 * 86400) (epoch_seconds end_time)
             = Some scanned"
  shows "(\<forall>e. scanned = Inl e \<longrightarrow> weekly_summary_handler env = Some (failure, [])) \<and>
         (\<forall>total_count user_stats event_stats e.
            scanned = Inr (total_count, user_stats, event_stats) \<and>
            s3_put_object env (request total_count user_stats event_stats) = Some e \<longrightarrow>
            weekly_summary_handler env =
              Some (failure, [request total_count user_stats event_stats]) \<and>
            persisted env [request total_count user_stats event_stats] = [])"
proof (intro conjI allI impI)
  fix e assume "scanned = Inl e"
  then show "weekly_summary_handler env = Some (failure, [])"
    using assms(4)
    by (simp add: weekly_summary_handler_def weekly_summary_try_def Let_def int_timestamp_def
        minus_days_def end_time_def failure_def)
next
  fix total_count user_stats event_stats e
  assume a: "scanned = Inr (total_count, user_stats, event_stats) \<and>
            s3_put_object env (request total_count user_stats event_stats) = Some e"
  have up: "upload_summary_to_s3 env
      (make_summary env (minus_days end_time 7) end_time total_count user_stats event_stats) end_time
      = (Inl e, [request total_count user_stats event_stats])"
    using a
    by (simp add: upload_summary_to_s3_def request_def Let_def make_summary_def
        py_subscript_def dict_subscript_def)
  have "weekly_summary_try env = Some (Inl e, [request total_count user_stats event_stats])"
    using a assms(4) up
    by (simp add: weekly_summary_try_def Let_def int_timestamp_def minus_days_def end_time_def
        report_and_upload_def)
  then show "weekly_summary_handler env =
      Some (failure, [request total_count user_stats event_stats])"
    by (simp add: weekly_summary_handler_def failure_def)
  show "persisted env [request total_count user_stats event_stats] = []"
    using a by (simp add: persisted_def)
qed

lemma example_failing_scan_result:
  "scan_table example_failing_scan s e =
     Some (Inl (PyExc ClientError ''ProvisionedThroughputExceededException''))"
  by (simp add: scan_table_def example_failing_scan_def
      scan_pages.simps [of _ "\<lparr>Items = Some [], LastEvaluatedKey = Some (Suc 0)\<rparr>"])

lemma example_json_dumps_error:
  "json_dumps (example_summary_env scan put) None (PyDict [(''error'', PyStr s)]) = s"
  by (simp add: example_summary_env_def summary_env.defs py_runtime.defs example_runtime_def)

theorem failed_run_persists_nothing_witness:
  "weekly_summary_handler (example_summary_env example_failing_scan (\<lambda>request. None)) =
     Some ([(''statusCode'', PyInt 500), (''body'', PyStr ''Failed to generate summary'')], []) \<and>
   (\<exists>request.
      weekly_summary_handler
        (example_summary_env (record_store_scan example_table 2)
           (\<lambda>request. Some (PyExc ClientError ''AccessDenied''))) =
        Some ([(''statusCode'', PyInt 500), (''body'', PyStr ''Failed to generate summary'')],
              [request]) \<and>
      persisted
        (example_summary_env (record_store_scan example_table 2)
           (\<lambda>request. Some (PyExc ClientError ''AccessDenied''))) [request] = [])"
proof
  show "weekly_summary_handler (example_summary_env example_failing_scan (\<lambda>request. None)) =
     Some ([(''statusCode'', PyInt 500), (''body'', PyStr ''Failed to generate summary'')], [])"
    using failed_run_persists_nothing
      [where env = "example_summary_env example_failing_scan (\<lambda>request. None)"
         and scanned = "Inl (PyExc ClientError ''ProvisionedThroughputExceededException'')"]
    by (simp add: example_summary_env_sel example_failing_scan_result example_json_dumps_error)
next
  let ?env = "example_summary_env (record_store_scan example_table 2)
           (\<lambda>request. Some (PyExc ClientError ''AccessDenied''))"
  let ?R = "filter (filter_expression (1704672000 - 7 * 86400) 1704672000) example_table"
  have scan: "scan_table (table_scan ?env) (epoch_seconds (utcnow ?env) - 7 * 86400)
      (epoch_seconds (utcnow ?env)) = Some (Inr (int (length ?R), process_items ?R [] []))"
    by (simp add: example_summary_env_sel scan_table_record_store)
  have "Inr (int (length ?R), process_items ?R [] []) =
          Inr (int (length ?R), fst (process_items ?R [] []), snd (process_items ?R [] [])) \<and>
        s3_put_object ?env req = Some (PyExc ClientError ''AccessDenied'')" for req
    by (simp add: example_summary_env_sel)
  from failed_run_persists_nothing [OF scan, THEN conjunct2, rule_format, OF this]
  show "\<exists>request.
      weekly_summary_handler ?env =
        Some ([(''statusCode'', PyInt 500), (''body'', PyStr ''Failed to generate summary'')],
              [request]) \<and>
      persisted ?env [request] = []"
    by (auto simp add: example_json_dumps_error)
qed

end
